theory Spec2Isabelle
  imports Main "HOL-Library.Word" "HOL-Library.Signed_Division"
begin

section \<open>Go values used by package crud\<close>

text \<open>
  Go's \<^verbatim>\<open>int\<close> is taken at its width on a 64-bit platform and \<^verbatim>\<open>int64\<close> is the same
  machine type: \<open>+\<close>, \<open>-\<close> and \<open>*\<close> wrap around modulo \<open>2 ^ 64\<close>, comparisons of the
  source are signed (\<open>\<le>s\<close>), and \<open>sint\<close> reads the two's complement value.
\<close>

type_synonym go_int = "64 word"
type_synonym go_int64 = "64 word"

text \<open>
  A run-time panic. The only operation of the package that can panic is the integer
  division in \<^verbatim>\<open>Handle\<close> (\<^verbatim>\<open>runtime error: integer divide by zero\<close>).
\<close>

datatype go_panic = DivideByZero

text \<open>
  Go's \<^verbatim>\<open>a / b\<close> on \<^verbatim>\<open>int\<close>: a panic when the divisor is zero, otherwise the quotient
  truncated towards zero (and wrapped, for the one overflowing case \<^verbatim>\<open>MinInt64 / -1\<close>).
\<close>

definition go_div :: "go_int \<Rightarrow> go_int \<Rightarrow> go_panic + go_int" where
  "go_div a b = (if b = 0 then Inl DivideByZero else Inr (word_of_int (sint a sdiv sint b)))"

text \<open>
  The dynamically typed values (\<^verbatim>\<open>interface{}\<close>) the package builds: \<^verbatim>\<open>nil\<close>, an \<^verbatim>\<open>int\<close>,
  an \<^verbatim>\<open>int64\<close>, a string, a slice \<^verbatim>\<open>[]T\<close> of items, and a \<^verbatim>\<open>map[string]interface{}\<close>.
\<close>

datatype 't go_any =
    ANil
  | AInt go_int
  | AInt64 go_int64
  | AString string
  | ASlice "'t list"
  | AMap "string \<rightharpoonup> 't go_any"

text \<open>
  A value of Go's \<^verbatim>\<open>error\<close> interface: the text \<^verbatim>\<open>Error()\<close> returns, and the result of
  its \<^verbatim>\<open>Details() interface{}\<close> method when its dynamic type has one (\<open>None\<close> when the
  type assertion in \<^verbatim>\<open>DefaultResponseWriter.Error\<close> fails).
\<close>

record 't go_error =
  err_Error :: string
  err_Details :: "'t go_any option"

text \<open>
  \<^verbatim>\<open>errors.New(text)\<close>: an error with that text and no further method. Errors are
  told apart by what they hold, so the package's four error variables are distinct
  values with distinct texts.
\<close>

definition errors_New :: "string \<Rightarrow> 't go_error" where
  "errors_New text = \<lparr>err_Error = text, err_Details = None\<rparr>"

definition ErrNotFound :: "'t go_error" where
  "ErrNotFound = errors_New ''not found''"

definition ErrConflict :: "'t go_error" where
  "ErrConflict = errors_New ''conflict''"

definition ErrBadRequest :: "'t go_error" where
  "ErrBadRequest = errors_New ''bad request''"

definition ErrInternal :: "'t go_error" where
  "ErrInternal = errors_New ''internal server error''"

definition StatusOK :: go_int where
  "StatusOK = 200"

definition StatusBadRequest :: go_int where
  "StatusBadRequest = 400"

definition StatusInternalServerError :: go_int where
  "StatusInternalServerError = 500"

section \<open>response.go\<close>

text \<open>\<^verbatim>\<open>ErrorResponse\<close>: the structure of an error response.\<close>

record 't ErrorResponse =
  Status :: go_int
  Message :: string
  Details :: "'t go_any"

text \<open>
  The argument \<^verbatim>\<open>v any\<close> of \<^verbatim>\<open>Response\<close>: a dynamic value (the map \<^verbatim>\<open>Handle\<close> builds, or
  \<^verbatim>\<open>nil\<close>) or an \<^verbatim>\<open>ErrorResponse\<close> struct.
\<close>

datatype 't payload =
    Value "'t go_any"
  | Struct "'t ErrorResponse"

text \<open>
  The interface \<^verbatim>\<open>ResponseWriter\<close>. \<open>'w\<close> is the state of the \<^verbatim>\<open>http.ResponseWriter\<close>
  the methods write to; \<^verbatim>\<open>Response\<close> also returns its \<^verbatim>\<open>error\<close> (\<open>None\<close> for \<^verbatim>\<open>nil\<close>).
\<close>

record ('w, 't) ResponseWriter =
  Error :: "'w \<Rightarrow> 't go_error \<Rightarrow> go_int \<Rightarrow> 'w"
  Response :: "'w \<Rightarrow> 't payload \<Rightarrow> go_int \<Rightarrow> 'w \<times> 't go_error option"

text \<open>
  What a client of \<^verbatim>\<open>net/http\<close> observes of an \<^verbatim>\<open>http.ResponseWriter\<close>: the header map
  being built, the status line and headers committed by the first \<^verbatim>\<open>WriteHeader\<close>, and
  the body bytes written.
\<close>

record http_ResponseWriter =
  Header :: "string \<rightharpoonup> string"
  Committed :: "(go_int \<times> (string \<rightharpoonup> string)) option"
  Body :: string

definition Header_Set :: "http_ResponseWriter \<Rightarrow> string \<Rightarrow> string \<Rightarrow> http_ResponseWriter" where
  "Header_Set writer k v = writer\<lparr>Header := (Header writer)(k \<mapsto> v)\<rparr>"

definition Header_Del :: "http_ResponseWriter \<Rightarrow> string \<Rightarrow> http_ResponseWriter" where
  "Header_Del writer k = writer\<lparr>Header := (Header writer)(k := None)\<rparr>"

text \<open>Only the first \<^verbatim>\<open>WriteHeader\<close> takes effect; it sends the headers set so far.\<close>

definition WriteHeader :: "http_ResponseWriter \<Rightarrow> go_int \<Rightarrow> http_ResponseWriter" where
  "WriteHeader writer status =
     (case Committed writer of
        None \<Rightarrow> writer\<lparr>Committed := Some (status, Header writer)\<rparr>
      | Some c \<Rightarrow> writer)"

text \<open>\<^verbatim>\<open>Write\<close> commits status 200 when no status has been written yet.\<close>

definition Write :: "http_ResponseWriter \<Rightarrow> string \<Rightarrow> http_ResponseWriter" where
  "Write writer bytes =
     (let writer = WriteHeader writer StatusOK
      in writer\<lparr>Body := Body writer @ bytes\<rparr>)"

text \<open>
  \<^verbatim>\<open>http.Error(w, error, code)\<close> of the standard library: a plain-text reply, the text
  followed by a newline.
\<close>

definition http_Error :: "http_ResponseWriter \<Rightarrow> string \<Rightarrow> go_int \<Rightarrow> http_ResponseWriter" where
  "http_Error writer msg code =
     (let writer = Header_Del writer ''Content-Length'';
          writer = Header_Set writer ''Content-Type'' ''text/plain; charset=utf-8'';
          writer = Header_Set writer ''X-Content-Type-Options'' ''nosniff'';
          writer = WriteHeader writer code
      in Write writer (msg @ [CHR 0x0A]))"

text \<open>
  \<^verbatim>\<open>DefaultResponseWriter.Response\<close>. The JSON encoder of the standard library is the
  parameter \<open>json_Encode\<close>: the bytes \<^verbatim>\<open>json.NewEncoder(writer).Encode(v)\<close> writes, or
  the error it returns (nothing is written then).
\<close>

definition DefaultResponseWriter_Response ::
  "('t payload \<Rightarrow> 't go_error + string) \<Rightarrow> http_ResponseWriter \<Rightarrow> 't payload \<Rightarrow> go_int
     \<Rightarrow> http_ResponseWriter \<times> 't go_error option" where
  "DefaultResponseWriter_Response json_Encode writer v status =
     (let writer = Header_Set writer ''Content-Type'' ''application/json'';
          writer = WriteHeader writer status
      in if v = Value ANil then (writer, None)
         else (case json_Encode v of
                 Inl err \<Rightarrow> (writer, Some err)
               | Inr bytes \<Rightarrow> (Write writer bytes, None)))"

text \<open>\<^verbatim>\<open>DefaultResponseWriter.Error\<close>.\<close>

definition DefaultResponseWriter_Error ::
  "('t payload \<Rightarrow> 't go_error + string) \<Rightarrow> http_ResponseWriter \<Rightarrow> 't go_error \<Rightarrow> go_int
     \<Rightarrow> http_ResponseWriter" where
  "DefaultResponseWriter_Error json_Encode writer err status =
     (let res = \<lparr>Status = status, Message = err_Error err, Details = ANil\<rparr>;
          res = (case err_Details err of
                   Some detailed \<Rightarrow> res\<lparr>Details := detailed\<rparr>
                 | None \<Rightarrow> res)
      in case DefaultResponseWriter_Response json_Encode writer (Struct res) status of
           (writer, None) \<Rightarrow> writer
         | (writer, Some err) \<Rightarrow>
             http_Error writer (err_Error (ErrInternal :: 't go_error)) StatusInternalServerError)"

definition DefaultResponseWriter ::
  "('t payload \<Rightarrow> 't go_error + string) \<Rightarrow> (http_ResponseWriter, 't) ResponseWriter" where
  "DefaultResponseWriter json_Encode =
     \<lparr>Error = DefaultResponseWriter_Error json_Encode,
      Response = DefaultResponseWriter_Response json_Encode\<rparr>"

section \<open>list.go\<close>

text \<open>\<^verbatim>\<open>PaginatedQuery\<close>: the standard pagination query parameters.\<close>

record PaginatedQuery =
  Page :: go_int
  PageSize :: go_int

text \<open>
  The \<^verbatim>\<open>validate\<close> tags of \<^verbatim>\<open>PaginatedQuery\<close> as the validator reads them:
  \<^verbatim>\<open>required\<close> rejects the zero value, \<^verbatim>\<open>min\<close> and \<^verbatim>\<open>max\<close> bound the (signed) number.
  \<^verbatim>\<open>Page\<close> is tagged \<^verbatim>\<open>required,min=1\<close> and \<^verbatim>\<open>PageSize\<close> \<^verbatim>\<open>required,min=1,max=100\<close>.
\<close>

definition validate_PaginatedQuery :: "'a PaginatedQuery_scheme \<Rightarrow> bool" where
  "validate_PaginatedQuery p =
     ((Page p \<noteq> 0 \<and> 1 \<le>s Page p) \<and>
      (PageSize p \<noteq> 0 \<and> 1 \<le>s PageSize p \<and> PageSize p \<le>s 100))"

text \<open>
  A \<^verbatim>\<open>context.Context\<close>: the context of a request, or one derived from a parent with
  a timeout (in nanoseconds).
\<close>

datatype go_context =
    Background nat
  | WithTimeout go_context int

definition Second :: int where
  "Second = 1000000000"

text \<open>
  The interface \<^verbatim>\<open>Listable[T, Q]\<close>. A Go result pair \<^verbatim>\<open>(v, err)\<close> is \<open>Inl err\<close> when
  \<^verbatim>\<open>err != nil\<close> (\<^verbatim>\<open>Handle\<close> does not look at \<^verbatim>\<open>v\<close> then) and \<open>Inr v\<close> otherwise.
\<close>

record ('t, 'q) Listable =
  List :: "go_context \<Rightarrow> 'q \<Rightarrow> go_int \<Rightarrow> go_int \<Rightarrow> 't go_error + 't list"
  Count :: "go_context \<Rightarrow> 'q \<Rightarrow> 't go_error + go_int64"

text \<open>\<^verbatim>\<open>url.Values\<close>, the parsed query string: \<^verbatim>\<open>map[string][]string\<close>.\<close>

type_synonym url_Values = "string \<rightharpoonup> string list"

text \<open>
  \<^verbatim>\<open>ListHandler[T, Q]\<close>. The decoder and the validator work by reflection on \<open>Q\<close>;
  here they are what they compute at the type \<open>Q\<close>: \<open>decoder\<close> is
  \<^verbatim>\<open>h.decoder.Decode(&query, values)\<close> on a zero \<^verbatim>\<open>query\<close> (\<open>Inl\<close> its error, \<open>Inr\<close> the
  decoded query), \<open>validate\<close> is \<^verbatim>\<open>h.validate.Struct(query)\<close> (\<open>None\<close> for \<^verbatim>\<open>nil\<close>).
\<close>

record ('t, 'q, 'w) ListHandler =
  querier :: "('t, 'q) Listable"
  decoder :: "url_Values \<Rightarrow> 't go_error + 'q"
  validate :: "'q \<Rightarrow> 't go_error option"
  writer :: "('w, 't) ResponseWriter"

text \<open>
  \<^verbatim>\<open>NewListHandler\<close>; \<open>form_NewDecoder\<close> and \<open>validator_New\<close> stand for the library
  constructors at the type \<open>Q\<close>.
\<close>

definition NewListHandler ::
  "(url_Values \<Rightarrow> 't go_error + 'q) \<Rightarrow> ('q \<Rightarrow> 't go_error option) \<Rightarrow> ('t, 'q) Listable
     \<Rightarrow> ('w, 't) ResponseWriter \<Rightarrow> ('t, 'q, 'w) ListHandler" where
  "NewListHandler form_NewDecoder validator_New querier' writer' =
     \<lparr>querier = querier', decoder = form_NewDecoder, validate = validator_New,
      writer = writer'\<rparr>"

text \<open>The fields of \<^verbatim>\<open>*http.Request\<close> that \<^verbatim>\<open>Handle\<close> reads.\<close>

record Request =
  Method :: string
  URL_Path :: string
  RemoteAddr :: string
  URL_Query :: url_Values
  Context :: go_context

text \<open>
  The two readings of the clock: \<^verbatim>\<open>time.Now()\<close> at the start and
  \<^verbatim>\<open>time.Since(startTime)\<close> at the end.
\<close>

record go_clock =
  time_Now :: int
  time_Since :: int

text \<open>The values logged as \<^verbatim>\<open>slog\<close> attributes.\<close>

datatype ('t, 'q) slog_value =
    SString string
  | SInt go_int
  | SError "'t go_error"
  | SQuery 'q
  | SValues url_Values
  | SAny "'t payload"
  | SDuration int

text \<open>
  What one call of \<^verbatim>\<open>Handle\<close> does, in order: log records, calls of the querier, calls
  of the response writer, and the deferred \<^verbatim>\<open>cancel()\<close>.
\<close>

datatype ('t, 'q) event =
    slog_Debug string "(string \<times> ('t, 'q) slog_value) list"
  | slog_Error string "(string \<times> ('t, 'q) slog_value) list"
  | querier_List go_context 'q go_int go_int
  | querier_Count go_context 'q
  | writer_Error "'t go_error" go_int
  | writer_Response "'t payload" go_int
  | cancel

datatype go_outcome =
    Returned
  | Panicked go_panic

record ('t, 'q, 'w) run =
  rw :: 'w
  trace :: "('t, 'q) event list"
  outcome :: go_outcome

text \<open>
  \<^verbatim>\<open>Handle\<close>. \<open>GetPagination\<close> is the method set of \<open>Q\<close> as the type assertion
  \<^verbatim>\<open>any(query).(interface{ GetPagination() PaginatedQuery })\<close> sees it: \<open>Some\<close> of the
  method when \<open>Q\<close> has it, \<open>None\<close> when the assertion fails. \<open>w\<close> is the
  \<^verbatim>\<open>http.ResponseWriter\<close> on entry. The result holds the writer on exit, the trace of
  events and whether the call returned or panicked.
\<close>

definition Handle ::
  "('q \<Rightarrow> PaginatedQuery) option \<Rightarrow> ('t, 'q, 'w) ListHandler \<Rightarrow> go_clock \<Rightarrow> 'w \<Rightarrow> Request
     \<Rightarrow> ('t, 'q, 'w) run" where
  "Handle GetPagination h clock w r =
     (let startTime = time_Now clock;
          t0 = [slog_Debug ''list.start''
                  [(''method'', SString (Method r)),
                   (''path'', SString (URL_Path r)),
                   (''remote_add'', SString (RemoteAddr r))]];
          ctx = WithTimeout (Context r) (30 * Second)
      in case decoder h (URL_Query r) of
           Inl err \<Rightarrow>
             \<lparr>rw = Error (writer h) w ErrBadRequest StatusBadRequest,
              trace = t0 @
                [slog_Error ''unable to decode query params'' [(''error'', SError err)],
                 slog_Debug ''query params decoding'' [(''query_params'', SValues (URL_Query r))],
                 writer_Error ErrBadRequest StatusBadRequest,
                 cancel],
              outcome = Returned\<rparr>
         | Inr query \<Rightarrow>
             (case validate h query of
                Some err \<Rightarrow>
                  \<lparr>rw = Error (writer h) w ErrBadRequest StatusBadRequest,
                   trace = t0 @
                     [slog_Error ''unable to validate query params'' [(''error'', SError err)],
                      slog_Debug ''query params decoding''
                        [(''query_params'', SValues (URL_Query r))],
                      writer_Error ErrBadRequest StatusBadRequest,
                      cancel],
                   outcome = Returned\<rparr>
              | None \<Rightarrow>
                  (let (offset, limit) =
                         (case GetPagination of
                            Some pg \<Rightarrow>
                              (let pagination = pg query
                               in ((Page pagination - 1) * PageSize pagination,
                                   PageSize pagination))
                          | None \<Rightarrow> (0, 0));
                       t1 = t0 @ [querier_List ctx query offset limit]
                   in case List (querier h) ctx query offset limit of
                        Inl err \<Rightarrow>
                          \<lparr>rw = Error (writer h) w ErrInternal StatusInternalServerError,
                           trace = t1 @
                             [slog_Error ''unable to list items'' [(''error'', SError err)],
                              slog_Debug ''listing''
                                [(''query'', SQuery query), (''offset'', SInt offset),
                                 (''limit'', SInt limit)],
                              writer_Error ErrInternal StatusInternalServerError,
                              cancel],
                           outcome = Returned\<rparr>
                      | Inr items \<Rightarrow>
                          (let t2 = t1 @ [querier_Count ctx query]
                           in case Count (querier h) ctx query of
                                Inl err \<Rightarrow>
                                  \<lparr>rw = Error (writer h) w ErrInternal
                                          StatusInternalServerError,
                                   trace = t2 @
                                     [slog_Error ''unable to count items''
                                        [(''error'', SError err)],
                                      slog_Debug ''counting'' [(''query'', SQuery query)],
                                      writer_Error ErrInternal StatusInternalServerError,
                                      cancel],
                                   outcome = Returned\<rparr>
                              | Inr total' \<Rightarrow>
                                  (case go_div offset limit of
                                     Inl p \<Rightarrow>
                                       \<lparr>rw = w, trace = t2 @ [cancel], outcome = Panicked p\<rparr>
                                   | Inr quo \<Rightarrow>
                                       (let res = Value (AMap
                                              [''items'' \<mapsto> ASlice items,
                                               ''pagination'' \<mapsto> AMap
                                                 [''total'' \<mapsto> AInt64 total',
                                                  ''page'' \<mapsto> AInt (quo + 1),
                                                  ''page_size'' \<mapsto> AInt limit]]);
                                            (w', err) = Response (writer h) w res StatusOK;
                                            t3 = t2 @ [writer_Response res StatusOK] @
                                              (case err of
                                                 Some e \<Rightarrow>
                                                   [slog_Error ''unable to write response''
                                                      [(''error'', SError e)],
                                                    slog_Debug ''writing response''
                                                      [(''response'', SAny res)]]
                                               | None \<Rightarrow> [])
                                        in \<lparr>rw = w',
                                            trace = t3 @
                                              [slog_Debug ''list.complete''
                                                 [(''duration'', SDuration (time_Since clock))],
                                               cancel],
                                            outcome = Returned\<rparr>))))))"

subsection \<open>Reading a trace\<close>

fun is_writer_call :: "('t, 'q) event \<Rightarrow> bool" where
  "is_writer_call (writer_Error err status) = True"
| "is_writer_call (writer_Response v status) = True"
| "is_writer_call e = False"

fun is_List_call :: "('t, 'q) event \<Rightarrow> bool" where
  "is_List_call (querier_List ctx query offset limit) = True"
| "is_List_call e = False"

fun is_Count_call :: "('t, 'q) event \<Rightarrow> bool" where
  "is_Count_call (querier_Count ctx query) = True"
| "is_Count_call e = False"

definition is_querier_call :: "('t, 'q) event \<Rightarrow> bool" where
  "is_querier_call e = (is_List_call e \<or> is_Count_call e)"

definition writer_calls :: "('t, 'q) event list \<Rightarrow> ('t, 'q) event list" where
  "writer_calls t = filter is_writer_call t"

definition querier_calls :: "('t, 'q) event list \<Rightarrow> ('t, 'q) event list" where
  "querier_calls t = filter is_querier_call t"

section \<open>The query type and the doubles of the package's tests\<close>

text \<open>
  \<^verbatim>\<open>TestQuery\<close> embeds \<^verbatim>\<open>PaginatedQuery\<close> and adds \<^verbatim>\<open>Name string `form:"name"`\<close>.
\<close>

record TestQuery = PaginatedQuery +
  Name :: string

definition GetPagination :: "TestQuery \<Rightarrow> PaginatedQuery" where
  "GetPagination q = \<lparr>Page = Page q, PageSize = PageSize q\<rparr>"

text \<open>
  \<^verbatim>\<open>strconv.ParseInt(s, 10, 64)\<close>, which the form decoder calls for an \<^verbatim>\<open>int\<close> field: an
  optional sign, then one or more decimal digits, within the range of \<^verbatim>\<open>int64\<close>;
  \<open>None\<close> is its error.
\<close>

definition is_digit :: "char \<Rightarrow> bool" where
  "is_digit c = (48 \<le> (of_char c :: nat) \<and> (of_char c :: nat) \<le> 57)"

fun digits_value :: "nat \<Rightarrow> string \<Rightarrow> nat option" where
  "digits_value n [] = Some n"
| "digits_value n (c # cs) =
     (if is_digit c then digits_value (10 * n + (of_char c - 48)) cs else None)"

definition strconv_ParseInt :: "string \<Rightarrow> go_int option" where
  "strconv_ParseInt s =
     (case s of
        [] \<Rightarrow> None
      | c # cs \<Rightarrow>
          (let neg = (c = CHR ''-'');
               ds = (if c = CHR ''+'' \<or> c = CHR ''-'' then cs else s)
           in if ds = [] then None
              else (case digits_value 0 ds of
                      None \<Rightarrow> None
                    | Some n \<Rightarrow>
                        if neg then (if n \<le> 2 ^ 63 then Some (- word_of_nat n) else None)
                        else (if n < 2 ^ 63 then Some (word_of_nat n) else None))))"

text \<open>
  The form decoder on one field tagged \<^verbatim>\<open>form:"key"\<close>: a missing key, an empty list of
  values or (for an integer field) an empty first value leaves the field as it is;
  otherwise the first value is taken. \<open>None\<close> is a decoding error of the field.
\<close>

definition form_setInt :: "url_Values \<Rightarrow> string \<Rightarrow> go_int \<Rightarrow> go_int option" where
  "form_setInt values key field =
     (case values key of
        None \<Rightarrow> Some field
      | Some arr \<Rightarrow>
          (case arr of
             [] \<Rightarrow> Some field
           | s # rest \<Rightarrow> if s = [] then Some field else strconv_ParseInt s))"

definition form_setString :: "url_Values \<Rightarrow> string \<Rightarrow> string \<Rightarrow> string" where
  "form_setString values key field =
     (case values key of
        None \<Rightarrow> field
      | Some arr \<Rightarrow> (case arr of [] \<Rightarrow> field | s # rest \<Rightarrow> s))"

text \<open>
  The errors of the two libraries. \<^verbatim>\<open>Handle\<close> only logs them, so their texts are
  placeholders.
\<close>

definition DecodeErrors :: "'t go_error" where
  "DecodeErrors = errors_New ''form: invalid value''"

definition ValidationErrors :: "'t go_error" where
  "ValidationErrors = errors_New ''validator: field validation failed''"

text \<open>
  \<^verbatim>\<open>form.NewDecoder().Decode(&query, values)\<close> at \<^verbatim>\<open>TestQuery\<close>, starting from the zero
  value: every field is tried, and the call fails when a field did.
\<close>

definition TestQuery_Decode :: "url_Values \<Rightarrow> 't go_error + TestQuery" where
  "TestQuery_Decode values =
     (case (form_setInt values ''page'' 0, form_setInt values ''page_size'' 0) of
        (Some page, Some page_size) \<Rightarrow>
          Inr \<lparr>Page = page, PageSize = page_size, Name = form_setString values ''name'' []\<rparr>
      | (Some page, None) \<Rightarrow> Inl DecodeErrors
      | (None, x) \<Rightarrow> Inl DecodeErrors)"

text \<open>\<^verbatim>\<open>validator.New(...).Struct(query)\<close> at \<^verbatim>\<open>TestQuery\<close>: the tags of the embedded struct.\<close>

definition TestQuery_Struct :: "TestQuery \<Rightarrow> 't go_error option" where
  "TestQuery_Struct query =
     (if validate_PaginatedQuery query then None else Some ValidationErrors)"

text \<open>
  \<^verbatim>\<open>MockQuerier\<close> and \<^verbatim>\<open>MockResponseWriter\<close> with their canned return values
  (\<^verbatim>\<open>On(...).Return(...)\<close>); the mock writer leaves the \<^verbatim>\<open>http.ResponseWriter\<close> alone.
\<close>

definition MockQuerier ::
  "'t go_error + 't list \<Rightarrow> 't go_error + go_int64 \<Rightarrow> ('t, 'q) Listable" where
  "MockQuerier list_ret count_ret =
     \<lparr>List = (\<lambda>ctx query offset limit. list_ret), Count = (\<lambda>ctx query. count_ret)\<rparr>"

definition MockResponseWriter :: "'t go_error option \<Rightarrow> ('w, 't) ResponseWriter" where
  "MockResponseWriter ret =
     \<lparr>Error = (\<lambda>w err status. w), Response = (\<lambda>w data status. (w, ret))\<rparr>"

text \<open>
  A query type without a \<^verbatim>\<open>GetPagination\<close> method: the empty struct \<^verbatim>\<open>struct{}\<close>. It has
  no field to decode and no tag to validate.
\<close>

definition EmptyQuery_Decode :: "url_Values \<Rightarrow> 't go_error + unit" where
  "EmptyQuery_Decode values = Inr ()"

definition EmptyQuery_Struct :: "unit \<Rightarrow> 't go_error option" where
  "EmptyQuery_Struct query = None"

text \<open>
  A stand-in for the JSON encoder in examples: it writes the message of an envelope,
  then its details when they are a string, then a newline, and refuses every other
  value.
\<close>

definition fake_Encode :: "'t payload \<Rightarrow> 't go_error + string" where
  "fake_Encode v =
     (case v of
        Struct res \<Rightarrow>
          Inr (Message res @
               (case Details res of AString d \<Rightarrow> '': '' @ d | other \<Rightarrow> []) @
               [CHR 0x0A])
      | Value a \<Rightarrow> Inl (errors_New ''json: unsupported value''))"

text \<open>\<^verbatim>\<open>assert.AnError\<close> of the test library.\<close>

definition AnError :: "'t go_error" where
  "AnError = errors_New ''assert.AnError general error for testing''"

definition example_clock :: go_clock where
  "example_clock = \<lparr>time_Now = 0, time_Since = 1\<rparr>"

text \<open>
  \<^verbatim>\<open>httptest.NewRequest("GET", "/?...", nil)\<close>, given the parsed query string, and
  \<^verbatim>\<open>httptest.NewRecorder()\<close>.
\<close>

text \<open>\<^verbatim>\<open>NewListHandler[string, TestQuery](querier, writer)\<close>, as every test builds it.\<close>

definition TestListHandler ::
  "(string, TestQuery) Listable \<Rightarrow> ('w, string) ResponseWriter
     \<Rightarrow> (string, TestQuery, 'w) ListHandler" where
  "TestListHandler querier' writer' =
     NewListHandler TestQuery_Decode TestQuery_Struct querier' writer'"

definition httptest_NewRequest :: "url_Values \<Rightarrow> Request" where
  "httptest_NewRequest values =
     \<lparr>Method = ''GET'', URL_Path = ''/'', RemoteAddr = ''192.0.2.1:1234'',
      URL_Query = values, Context = Background 0\<rparr>"

definition httptest_NewRecorder :: http_ResponseWriter where
  "httptest_NewRecorder = \<lparr>Header = Map.empty, Committed = None, Body = []\<rparr>"

section \<open>The runs of Handle, path by path\<close>

text \<open>
  Each lemma gives the whole run of \<^verbatim>\<open>Handle\<close> on one path through its body, named by
  the step that ends it.
\<close>

lemma Handle_decode_error_run:
  assumes "decoder h (URL_Query r) = Inl err"
  shows "Handle pg h clock w r =
     \<lparr>rw = Error (writer h) w ErrBadRequest StatusBadRequest,
      trace =
        [slog_Debug ''list.start''
           [(''method'', SString (Method r)), (''path'', SString (URL_Path r)),
            (''remote_add'', SString (RemoteAddr r))],
         slog_Error ''unable to decode query params'' [(''error'', SError err)],
         slog_Debug ''query params decoding'' [(''query_params'', SValues (URL_Query r))],
         writer_Error ErrBadRequest StatusBadRequest,
         cancel],
      outcome = Returned\<rparr>"
  unfolding Handle_def Let_def by (simp add: assms)

lemma Handle_validate_error_run:
  assumes "decoder h (URL_Query r) = Inr query" and "validate h query = Some err"
  shows "Handle pg h clock w r =
     \<lparr>rw = Error (writer h) w ErrBadRequest StatusBadRequest,
      trace =
        [slog_Debug ''list.start''
           [(''method'', SString (Method r)), (''path'', SString (URL_Path r)),
            (''remote_add'', SString (RemoteAddr r))],
         slog_Error ''unable to validate query params'' [(''error'', SError err)],
         slog_Debug ''query params decoding'' [(''query_params'', SValues (URL_Query r))],
         writer_Error ErrBadRequest StatusBadRequest,
         cancel],
      outcome = Returned\<rparr>"
  unfolding Handle_def Let_def by (simp add: assms)

lemma Handle_List_error_run:
  assumes "decoder h (URL_Query r) = Inr query" and "validate h query = None"
    and "(case pg of
            Some g \<Rightarrow> ((Page (g query) - 1) * PageSize (g query), PageSize (g query))
          | None \<Rightarrow> (0, 0)) = (offset, limit)"
    and "List (querier h) (WithTimeout (Context r) (30 * Second)) query offset limit = Inl err"
  shows "Handle pg h clock w r =
     \<lparr>rw = Error (writer h) w ErrInternal StatusInternalServerError,
      trace =
        [slog_Debug ''list.start''
           [(''method'', SString (Method r)), (''path'', SString (URL_Path r)),
            (''remote_add'', SString (RemoteAddr r))],
         querier_List (WithTimeout (Context r) (30 * Second)) query offset limit,
         slog_Error ''unable to list items'' [(''error'', SError err)],
         slog_Debug ''listing''
           [(''query'', SQuery query), (''offset'', SInt offset), (''limit'', SInt limit)],
         writer_Error ErrInternal StatusInternalServerError,
         cancel],
      outcome = Returned\<rparr>"
  unfolding Handle_def Let_def by (simp add: assms)

lemma Handle_Count_error_run:
  assumes "decoder h (URL_Query r) = Inr query" and "validate h query = None"
    and "(case pg of
            Some g \<Rightarrow> ((Page (g query) - 1) * PageSize (g query), PageSize (g query))
          | None \<Rightarrow> (0, 0)) = (offset, limit)"
    and "List (querier h) (WithTimeout (Context r) (30 * Second)) query offset limit = Inr items"
    and "Count (querier h) (WithTimeout (Context r) (30 * Second)) query = Inl err"
  shows "Handle pg h clock w r =
     \<lparr>rw = Error (writer h) w ErrInternal StatusInternalServerError,
      trace =
        [slog_Debug ''list.start''
           [(''method'', SString (Method r)), (''path'', SString (URL_Path r)),
            (''remote_add'', SString (RemoteAddr r))],
         querier_List (WithTimeout (Context r) (30 * Second)) query offset limit,
         querier_Count (WithTimeout (Context r) (30 * Second)) query,
         slog_Error ''unable to count items'' [(''error'', SError err)],
         slog_Debug ''counting'' [(''query'', SQuery query)],
         writer_Error ErrInternal StatusInternalServerError,
         cancel],
      outcome = Returned\<rparr>"
  unfolding Handle_def Let_def by (simp add: assms)

lemma Handle_panic_run:
  assumes "decoder h (URL_Query r) = Inr query" and "validate h query = None"
    and "(case pg of
            Some g \<Rightarrow> ((Page (g query) - 1) * PageSize (g query), PageSize (g query))
          | None \<Rightarrow> (0, 0)) = (offset, limit)"
    and "List (querier h) (WithTimeout (Context r) (30 * Second)) query offset limit = Inr items"
    and "Count (querier h) (WithTimeout (Context r) (30 * Second)) query = Inr total'"
    and "go_div offset limit = Inl p"
  shows "Handle pg h clock w r =
     \<lparr>rw = w,
      trace =
        [slog_Debug ''list.start''
           [(''method'', SString (Method r)), (''path'', SString (URL_Path r)),
            (''remote_add'', SString (RemoteAddr r))],
         querier_List (WithTimeout (Context r) (30 * Second)) query offset limit,
         querier_Count (WithTimeout (Context r) (30 * Second)) query,
         cancel],
      outcome = Panicked p\<rparr>"
  unfolding Handle_def Let_def by (simp add: assms)

lemma Handle_success_run:
  assumes "decoder h (URL_Query r) = Inr query" and "validate h query = None"
    and "(case pg of
            Some g \<Rightarrow> ((Page (g query) - 1) * PageSize (g query), PageSize (g query))
          | None \<Rightarrow> (0, 0)) = (offset, limit)"
    and "List (querier h) (WithTimeout (Context r) (30 * Second)) query offset limit = Inr items"
    and "Count (querier h) (WithTimeout (Context r) (30 * Second)) query = Inr total'"
    and "go_div offset limit = Inr quo"
    and "res = Value (AMap
           [''items'' \<mapsto> ASlice items,
            ''pagination'' \<mapsto> AMap
              [''total'' \<mapsto> AInt64 total', ''page'' \<mapsto> AInt (quo + 1),
               ''page_size'' \<mapsto> AInt limit]])"
    and "Response (writer h) w res StatusOK = (w', e)"
  shows "Handle pg h clock w r =
     \<lparr>rw = w',
      trace =
        [slog_Debug ''list.start''
           [(''method'', SString (Method r)), (''path'', SString (URL_Path r)),
            (''remote_add'', SString (RemoteAddr r))],
         querier_List (WithTimeout (Context r) (30 * Second)) query offset limit,
         querier_Count (WithTimeout (Context r) (30 * Second)) query,
         writer_Response res StatusOK] @
        (case e of
           Some e' \<Rightarrow>
             [slog_Error ''unable to write response'' [(''error'', SError e')],
              slog_Debug ''writing response'' [(''response'', SAny res)]]
         | None \<Rightarrow> []) @
        [slog_Debug ''list.complete'' [(''duration'', SDuration (time_Since clock))],
         cancel],
      outcome = Returned\<rparr>"
  using assms(8) unfolding Handle_def Let_def assms(7) by (simp add: assms(1-6))

text \<open>Every run of \<^verbatim>\<open>Handle\<close> takes one of the six paths.\<close>

lemma Handle_run_cases [case_names decode_error validate_error List_error Count_error panic success]:
  fixes h :: "('t, 'q, 'w) ListHandler" and pg :: "('q \<Rightarrow> PaginatedQuery) option"
  obtains
    err where "decoder h (URL_Query r) = Inl err"
  | query err where "decoder h (URL_Query r) = Inr query" and "validate h query = Some err"
  | query offset limit err where
      "decoder h (URL_Query r) = Inr query" and "validate h query = None"
      and "(case pg of
              Some g \<Rightarrow> ((Page (g query) - 1) * PageSize (g query), PageSize (g query))
            | None \<Rightarrow> (0, 0)) = (offset, limit)"
      and "List (querier h) (WithTimeout (Context r) (30 * Second)) query offset limit = Inl err"
  | query offset limit items err where
      "decoder h (URL_Query r) = Inr query" and "validate h query = None"
      and "(case pg of
              Some g \<Rightarrow> ((Page (g query) - 1) * PageSize (g query), PageSize (g query))
            | None \<Rightarrow> (0, 0)) = (offset, limit)"
      and "List (querier h) (WithTimeout (Context r) (30 * Second)) query offset limit = Inr items"
      and "Count (querier h) (WithTimeout (Context r) (30 * Second)) query = Inl err"
  | query offset limit items total' p where
      "decoder h (URL_Query r) = Inr query" and "validate h query = None"
      and "(case pg of
              Some g \<Rightarrow> ((Page (g query) - 1) * PageSize (g query), PageSize (g query))
            | None \<Rightarrow> (0, 0)) = (offset, limit)"
      and "List (querier h) (WithTimeout (Context r) (30 * Second)) query offset limit = Inr items"
      and "Count (querier h) (WithTimeout (Context r) (30 * Second)) query = Inr total'"
      and "go_div offset limit = Inl p"
  | query offset limit items total' quo where
      "decoder h (URL_Query r) = Inr query" and "validate h query = None"
      and "(case pg of
              Some g \<Rightarrow> ((Page (g query) - 1) * PageSize (g query), PageSize (g query))
            | None \<Rightarrow> (0, 0)) = (offset, limit)"
      and "List (querier h) (WithTimeout (Context r) (30 * Second)) query offset limit = Inr items"
      and "Count (querier h) (WithTimeout (Context r) (30 * Second)) query = Inr total'"
      and "go_div offset limit = Inr quo"
proof (cases "decoder h (URL_Query r)")
  case (Inl err)
  then show ?thesis by (rule that(1))
next
  case dec: (Inr query)
  show ?thesis
  proof (cases "validate h query")
    case (Some err)
    with dec show ?thesis by (rule that(2))
  next
    case val: None
    obtain offset limit where ol: "(case pg of
              Some g \<Rightarrow> ((Page (g query) - 1) * PageSize (g query), PageSize (g query))
            | None \<Rightarrow> (0, 0)) = (offset, limit)"
      by (cases "(case pg of
              Some g \<Rightarrow> ((Page (g query) - 1) * PageSize (g query), PageSize (g query))
            | None \<Rightarrow> (0, 0))") 
    show ?thesis
    proof (cases "List (querier h) (WithTimeout (Context r) (30 * Second)) query offset limit")
      case (Inl err)
      with dec val ol show ?thesis by (rule that(3))
    next
      case lst: (Inr items)
      show ?thesis
      proof (cases "Count (querier h) (WithTimeout (Context r) (30 * Second)) query")
        case (Inl err)
        with dec val ol lst show ?thesis by (rule that(4))
      next
        case cnt: (Inr total')
        show ?thesis
        proof (cases "go_div offset limit")
          case (Inl p)
          with dec val ol lst cnt show ?thesis by (rule that(5))
        next
          case (Inr quo)
          with dec val ol lst cnt show ?thesis by (rule that(6))
        qed
      qed
    qed
  qed
qed

section \<open>Arithmetic of the page echo\<close>

lemma sint_minus_one:
  assumes "1 \<le>s (page :: go_int)"
  shows "sint (page - 1) = sint page - 1"
proof -
  have lo: "1 \<le> sint page" using assms by (simp add: word_sle_eq)
  have hi: "sint page < 2 ^ 63" using sint_lt [of page] by simp
  have "sint (page - 1) = signed_take_bit 63 (sint page - 1)"
    by (simp add: sint_word_ariths)
  also have "\<dots> = sint page - 1"
    using lo hi by (intro signed_take_bit_int_eq_self) simp_all
  finally show ?thesis .
qed

lemma sint_offset:
  assumes "1 \<le>s (page :: go_int)" and "1 \<le>s (page_size :: go_int)"
    and "(sint page - 1) * sint page_size < 2 ^ 63"
  shows "sint ((page - 1) * page_size) = (sint page - 1) * sint page_size"
proof -
  have p: "0 \<le> sint page - 1" using assms(1) by (simp add: word_sle_eq)
  have s: "1 \<le> sint page_size" using assms(2) by (simp add: word_sle_eq)
  have nonneg: "0 \<le> (sint page - 1) * sint page_size" using p s by simp
  have "sint ((page - 1) * page_size) = signed_take_bit 63 (sint (page - 1) * sint page_size)"
    by (simp add: sint_word_ariths)
  also have "\<dots> = signed_take_bit 63 ((sint page - 1) * sint page_size)"
    by (simp add: sint_minus_one [OF assms(1)])
  also have "\<dots> = (sint page - 1) * sint page_size"
    using nonneg assms(3) by (intro signed_take_bit_int_eq_self) simp_all
  finally show ?thesis .
qed

lemma go_div_offset:
  assumes "1 \<le>s (page :: go_int)" and "1 \<le>s (page_size :: go_int)"
    and "(sint page - 1) * sint page_size < 2 ^ 63"
  shows "go_div ((page - 1) * page_size) page_size = Inr (page - 1)"
proof -
  have p: "0 \<le> sint page - 1" using assms(1) by (simp add: word_sle_eq)
  have s: "1 \<le> sint page_size" using assms(2) by (simp add: word_sle_eq)
  have nz: "page_size \<noteq> 0" using s by auto
  have "sint ((page - 1) * page_size) sdiv sint page_size
          = ((sint page - 1) * sint page_size) sdiv sint page_size"
    by (simp add: sint_offset [OF assms])
  also have "\<dots> = sint page - 1"
    using p s by (cases "sint page - 1 = 0") (simp_all add: signed_divide_int_def sgn_mult)
  finally have "sint ((page - 1) * page_size) sdiv sint page_size = sint page - 1" .
  moreover have "word_of_int (sint page - 1) = page - 1" by simp
  ultimately show ?thesis using nz by (simp add: go_div_def)
qed

section \<open>Facts about the example query type\<close>

lemmas trace_defs = writer_calls_def querier_calls_def is_querier_call_def
lemmas status_defs = StatusOK_def StatusBadRequest_def StatusInternalServerError_def
lemmas decode_defs = TestQuery_Decode_def form_setInt_def form_setString_def
  strconv_ParseInt_def is_digit_def
lemmas fixture_defs = TestListHandler_def NewListHandler_def httptest_NewRequest_def
  MockQuerier_def MockResponseWriter_def

lemma validate_PaginatedQuery_iff:
  "validate_PaginatedQuery p \<longleftrightarrow> 1 \<le>s Page p \<and> 1 \<le>s PageSize p \<and> PageSize p \<le>s 100"
  by (auto simp add: validate_PaginatedQuery_def word_sle_eq)

lemma validate_PaginatedQuery_rejects:
  "Page p = 0 \<or> PageSize p = 0 \<or> PageSize p = 101 \<Longrightarrow> \<not> validate_PaginatedQuery p"
  by (auto simp add: validate_PaginatedQuery_def word_sle_eq)

lemma TestQuery_Decode_page_0:
  "TestQuery_Decode [''page'' \<mapsto> [''0''], ''page_size'' \<mapsto> [''0'']]
     = Inr \<lparr>Page = 0, PageSize = 0, Name = []\<rparr>"
  by (simp add: decode_defs)

lemma TestQuery_Decode_page_abc:
  "TestQuery_Decode [''page'' \<mapsto> [''abc''], ''page_size'' \<mapsto> [''10'']] = Inl DecodeErrors"
  by (simp add: decode_defs)

lemma TestQuery_Decode_page_size_101:
  "TestQuery_Decode [''page'' \<mapsto> [''1''], ''page_size'' \<mapsto> [''101'']]
     = Inr \<lparr>Page = 1, PageSize = 101, Name = []\<rparr>"
  by (simp add: decode_defs)

lemma TestQuery_Decode_page_1_size_10:
  "TestQuery_Decode [''page'' \<mapsto> [''1''], ''page_size'' \<mapsto> [''10'']]
     = Inr \<lparr>Page = 1, PageSize = 10, Name = []\<rparr>"
  by (simp add: decode_defs)

lemma TestListHandler_decoder_page_1_size_10:
  "decoder (TestListHandler qr wr)
     (URL_Query (httptest_NewRequest [''page'' \<mapsto> [''1''], ''page_size'' \<mapsto> [''10'']]))
   = Inr \<lparr>Page = 1, PageSize = 10, Name = []\<rparr>"
  by (simp add: TestListHandler_def NewListHandler_def httptest_NewRequest_def
      TestQuery_Decode_page_1_size_10)

lemma TestListHandler_validate_page_1_size_10:
  "validate (TestListHandler qr wr) \<lparr>Page = 1, PageSize = 10, Name = []\<rparr> = None"
  by (simp add: TestListHandler_def NewListHandler_def TestQuery_Struct_def
      validate_PaginatedQuery_def word_sle_eq)

lemma GetPagination_page_1_size_10:
  "(case Some GetPagination of
      Some g \<Rightarrow>
        ((Page (g \<lparr>Page = 1, PageSize = 10, Name = []\<rparr>) - 1)
           * PageSize (g \<lparr>Page = 1, PageSize = 10, Name = []\<rparr>),
         PageSize (g \<lparr>Page = 1, PageSize = 10, Name = []\<rparr>))
    | None \<Rightarrow> (0, 0)) = (0, 10)"
  by (simp add: GetPagination_def)

lemma TestQuery_Decode_page_3_size_20:
  "TestQuery_Decode [''page'' \<mapsto> [''3''], ''page_size'' \<mapsto> [''20'']]
     = Inr \<lparr>Page = 3, PageSize = 20, Name = []\<rparr>"
  by (simp add: decode_defs)

lemma TestQuery_Decode_page_overflow:
  "TestQuery_Decode [''page'' \<mapsto> [''4611686018427387905''], ''page_size'' \<mapsto> [''4'']]
     = Inr \<lparr>Page = 4611686018427387905, PageSize = 4, Name = []\<rparr>"
  by (simp add: decode_defs)

lemma TestListHandler_decoder:
  "decoder (TestListHandler qr wr) (URL_Query (httptest_NewRequest values))
     = TestQuery_Decode values"
  by (simp add: TestListHandler_def NewListHandler_def httptest_NewRequest_def)

lemma TestListHandler_validate:
  "validate_PaginatedQuery query \<Longrightarrow> validate (TestListHandler qr wr) query = None"
  by (simp add: TestListHandler_def NewListHandler_def TestQuery_Struct_def)

lemma TestListHandler_validate_eq:
  "validate (TestListHandler qr wr) query = TestQuery_Struct query"
  by (simp add: TestListHandler_def NewListHandler_def)

lemma GetPagination_eq:
  "GetPagination \<lparr>Page = page, PageSize = page_size, Name = name\<rparr>
     = \<lparr>Page = page, PageSize = page_size\<rparr>"
  by (simp add: GetPagination_def)

lemma MockQuerier_simps:
  "List (querier (TestListHandler (MockQuerier list_ret count_ret) wr)) ctx query offset limit
     = list_ret"
  "Count (querier (TestListHandler (MockQuerier list_ret count_ret) wr)) ctx query = count_ret"
  by (simp_all add: fixture_defs)

section \<open>The call of List in a trace\<close>

text \<open>
  A call of \<^verbatim>\<open>List\<close> in the trace tells that decoding and validation succeeded, and
  with which context, offset and limit the call was made.
\<close>

lemma List_call_in_trace:
  assumes "querier_List ctx query offset limit \<in> set (trace (Handle pg h clock w r))"
  shows "decoder h (URL_Query r) = Inr query"
    and "validate h query = None"
    and "ctx = WithTimeout (Context r) (30 * Second)"
    and "(case pg of
            Some g \<Rightarrow> ((Page (g query) - 1) * PageSize (g query), PageSize (g query))
          | None \<Rightarrow> (0, 0)) = (offset, limit)"
proof -
  have "decoder h (URL_Query r) = Inr query \<and> validate h query = None
      \<and> ctx = WithTimeout (Context r) (30 * Second)
      \<and> (case pg of
            Some g \<Rightarrow> ((Page (g query) - 1) * PageSize (g query), PageSize (g query))
          | None \<Rightarrow> (0, 0)) = (offset, limit)"
  proof (cases rule: Handle_run_cases [where h = h and r = r and pg = pg])
    case (decode_error e)
    from assms show ?thesis by (simp add: Handle_decode_error_run [OF decode_error])
  next
    case (validate_error q e)
    from assms show ?thesis by (simp add: Handle_validate_error_run [OF validate_error])
  next
    case (List_error q off lim e)
    from assms List_error(1-3) show ?thesis
      by (auto simp add: Handle_List_error_run [OF List_error])
  next
    case (Count_error q off lim items e)
    from assms Count_error(1-3) show ?thesis
      by (auto simp add: Handle_Count_error_run [OF Count_error])
  next
    case (panic q off lim items t p)
    from assms panic(1-3) show ?thesis
      by (auto simp add: Handle_panic_run [OF panic])
  next
    case (success q off lim items t quo)
    obtain w' e where resp: "Response (writer h) w (Value (AMap
           [''items'' \<mapsto> ASlice items,
            ''pagination'' \<mapsto> AMap
              [''total'' \<mapsto> AInt64 t, ''page'' \<mapsto> AInt (quo + 1),
               ''page_size'' \<mapsto> AInt lim]])) StatusOK = (w', e)"
      by (rule prod.exhaust)
    from assms success(1-3) show ?thesis
      by (cases e) (auto simp add: Handle_success_run [OF success refl resp])
  qed
  then show "decoder h (URL_Query r) = Inr query"
    and "validate h query = None"
    and "ctx = WithTimeout (Context r) (30 * Second)"
    and "(case pg of
            Some g \<Rightarrow> ((Page (g query) - 1) * PageSize (g query), PageSize (g query))
          | None \<Rightarrow> (0, 0)) = (offset, limit)"
    by simp_all
qed

lemma Handle_querier_error:
  assumes called: "querier_List ctx query offset limit \<in> set (trace (Handle pg h clock w r))"
    and failed: "case List (querier h) ctx query offset limit of
                   Inl err \<Rightarrow> True
                 | Inr items \<Rightarrow>
                     (case Count (querier h) ctx query of
                        Inl err \<Rightarrow> True
                      | Inr total' \<Rightarrow> False)"
  shows "rw (Handle pg h clock w r) = Error (writer h) w ErrInternal 500"
    and "writer_calls (trace (Handle pg h clock w r)) = [writer_Error ErrInternal 500]"
proof -
  note facts = List_call_in_trace [OF called]
  have "rw (Handle pg h clock w r) = Error (writer h) w ErrInternal 500
      \<and> writer_calls (trace (Handle pg h clock w r)) = [writer_Error ErrInternal 500]"
  proof (cases "List (querier h) ctx query offset limit")
    case (Inl err)
    then have "List (querier h) (WithTimeout (Context r) (30 * Second)) query offset limit
        = Inl err"
      by (simp add: facts(3))
    from Handle_List_error_run [OF facts(1,2,4) this] show ?thesis
      by (simp add: trace_defs status_defs)
  next
    case (Inr items)
    with failed obtain err where "Count (querier h) ctx query = Inl err"
      by (cases "Count (querier h) ctx query") simp_all
    with Inr have "List (querier h) (WithTimeout (Context r) (30 * Second)) query offset limit
        = Inr items"
      and "Count (querier h) (WithTimeout (Context r) (30 * Second)) query = Inl err"
      by (simp_all add: facts(3))
    from Handle_Count_error_run [OF facts(1,2,4) this] show ?thesis
      by (simp add: trace_defs status_defs)
  qed
  then show "rw (Handle pg h clock w r) = Error (writer h) w ErrInternal 500"
    and "writer_calls (trace (Handle pg h clock w r)) = [writer_Error ErrInternal 500]"
    by simp_all
qed

lemma DefaultResponseWriter_Error_ErrInternal:
  "DefaultResponseWriter_Error json_Encode w ErrInternal 500 =
     (case json_Encode
             (Struct \<lparr>Status = 500, Message = ''internal server error'', Details = ANil\<rparr>) of
        Inr bytes \<Rightarrow>
          Write (WriteHeader (Header_Set w ''Content-Type'' ''application/json'') 500) bytes
      | Inl e \<Rightarrow>
          http_Error (WriteHeader (Header_Set w ''Content-Type'' ''application/json'') 500)
            ''internal server error'' 500)"
  by (simp add: DefaultResponseWriter_Error_def DefaultResponseWriter_Response_def
      ErrInternal_def errors_New_def status_defs split: sum.splits)

section \<open>Properties of Handle and of the default response writer\<close>

text \<open>
  C1, as the code has it. For a query type without \<^verbatim>\<open>GetPagination\<close>, \<^verbatim>\<open>Handle\<close> calls
  \<^verbatim>\<open>List\<close> with offset 0 and limit 0; when \<^verbatim>\<open>List\<close> and \<^verbatim>\<open>Count\<close> both succeed, the
  division \<^verbatim>\<open>offset/limit\<close> panics with a division by zero, the response writer is never
  called and the \<^verbatim>\<open>http.ResponseWriter\<close> is left untouched: no page is echoed.
\<close>

theorem Handle_without_pagination_panics:
  assumes called: "querier_List ctx query offset limit \<in> set (trace (Handle None h clock w r))"
    and listed: "List (querier h) ctx query offset limit = Inr items"
    and counted: "Count (querier h) ctx query = Inr total'"
  shows "offset = 0 \<and> limit = 0
       \<and> outcome (Handle None h clock w r) = Panicked DivideByZero
       \<and> writer_calls (trace (Handle None h clock w r)) = []
       \<and> rw (Handle None h clock w r) = w"
proof (cases rule: Handle_run_cases [where h = h and r = r and pg = None])
  case (decode_error e)
  from called show ?thesis by (simp add: Handle_decode_error_run [OF decode_error])
next
  case (validate_error q e)
  from called show ?thesis by (simp add: Handle_validate_error_run [OF validate_error])
next
  case (List_error q off lim e)
  from called listed List_error(3,4) show ?thesis
    by (simp add: Handle_List_error_run [OF List_error])
next
  case (Count_error q off lim items' e)
  from called counted Count_error(3-5) show ?thesis
    by (simp add: Handle_Count_error_run [OF Count_error])
next
  case (panic q off lim items' t p)
  from called panic(3) show ?thesis
    by (cases p) (simp add: Handle_panic_run [OF panic] trace_defs)
next
  case (success q off lim items' t quo)
  from success(3,6) show ?thesis by (simp add: go_div_def)
qed

theorem Handle_without_pagination_panics_witness:
  "querier_List (WithTimeout (Background 0) (30 * Second)) () 0 0
     \<in> set (trace (Handle None
           (NewListHandler EmptyQuery_Decode EmptyQuery_Struct
              (MockQuerier (Inr [''item1'']) (Inr 1)) (MockResponseWriter None))
           example_clock httptest_NewRecorder (httptest_NewRequest Map.empty)))
   \<and> outcome (Handle None
           (NewListHandler EmptyQuery_Decode EmptyQuery_Struct
              (MockQuerier (Inr [''item1'']) (Inr 1)) (MockResponseWriter None))
           example_clock httptest_NewRecorder (httptest_NewRequest Map.empty))
       = Panicked DivideByZero
   \<and> writer_calls (trace (Handle None
           (NewListHandler EmptyQuery_Decode EmptyQuery_Struct
              (MockQuerier (Inr [''item1'']) (Inr 1)) (MockResponseWriter None))
           example_clock httptest_NewRecorder (httptest_NewRequest Map.empty)))
       = []"
proof -
  let ?h = "NewListHandler EmptyQuery_Decode EmptyQuery_Struct
              (MockQuerier (Inr [''item1'']) (Inr 1)) (MockResponseWriter None)
              :: (string, unit, http_ResponseWriter) ListHandler"
  let ?r = "httptest_NewRequest Map.empty"
  let ?ctx = "WithTimeout (Background 0) (30 * Second)"
  have dec: "decoder ?h (URL_Query ?r) = Inr ()"
    and val: "validate ?h () = None"
    by (simp_all add: NewListHandler_def EmptyQuery_Decode_def EmptyQuery_Struct_def)
  have ol: "(case None :: (unit \<Rightarrow> PaginatedQuery) option of
               Some g \<Rightarrow> ((Page (g ()) - 1) * PageSize (g ()), PageSize (g ()))
             | None \<Rightarrow> (0, 0)) = (0, 0)"
    by simp
  have listed: "List (querier ?h) ?ctx () 0 0 = Inr [''item1'']"
    and counted: "Count (querier ?h) ?ctx () = Inr 1"
    by (simp_all add: fixture_defs)
  then have listed': "List (querier ?h) (WithTimeout (Context ?r) (30 * Second)) () 0 0
        = Inr [''item1'']"
    and counted': "Count (querier ?h) (WithTimeout (Context ?r) (30 * Second)) () = Inr 1"
    by (simp_all add: httptest_NewRequest_def)
  have div: "go_div 0 0 = Inl DivideByZero" by (simp add: go_div_def)
  have called: "querier_List ?ctx () 0 0
      \<in> set (trace (Handle None ?h example_clock httptest_NewRecorder ?r))"
    by (simp add: Handle_panic_run [OF dec val ol listed' counted' div])
       (simp add: httptest_NewRequest_def)
  from Handle_without_pagination_panics [OF called listed counted] called
  show ?thesis by simp
qed

text \<open>
  C2. When the decoded and validated query yields the pagination \<open>(page, page_size)\<close>
  with \<open>page \<ge> 1\<close> and \<open>page_size\<close> in \<open>[1, 100]\<close>, \<^verbatim>\<open>Handle\<close> calls \<^verbatim>\<open>List\<close> exactly once,
  with offset \<open>(page - 1) * page_size\<close> and limit \<open>page_size\<close>. The product is Go's, on
  \<^verbatim>\<open>int\<close>; it is the product of the integers whenever that fits into an \<^verbatim>\<open>int\<close>, as it
  does for every page up to 92233720368547758.
\<close>

theorem Handle_offset_limit:
  assumes dec: "decoder h (URL_Query r) = Inr query" and val: "validate h query = None"
    and pq: "pg query = \<lparr>Page = page, PageSize = page_size\<rparr>"
    and bounds: "1 \<le>s page" "1 \<le>s page_size" "page_size \<le>s 100"
  shows "filter is_List_call (trace (Handle (Some pg) h clock w r))
           = [querier_List (WithTimeout (Context r) (30 * Second)) query
                ((page - 1) * page_size) page_size]
       \<and> ((sint page - 1) * sint page_size < 2 ^ 63 \<longrightarrow>
            sint ((page - 1) * page_size) = (sint page - 1) * sint page_size)
       \<and> (sint page \<le> 92233720368547758 \<longrightarrow>
            sint ((page - 1) * page_size) = (sint page - 1) * sint page_size)"
proof (intro conjI)
  show "filter is_List_call (trace (Handle (Some pg) h clock w r))
           = [querier_List (WithTimeout (Context r) (30 * Second)) query
                ((page - 1) * page_size) page_size]"
  proof (cases rule: Handle_run_cases [where h = h and r = r and pg = "Some pg"])
    case (decode_error e)
    with dec show ?thesis by simp
  next
    case (validate_error q e)
    with dec val show ?thesis by simp
  next
    case (List_error q off lim e)
    from List_error(1,3) dec pq have "q = query" "off = (page - 1) * page_size" "lim = page_size"
      by auto
    then show ?thesis by (simp add: Handle_List_error_run [OF List_error])
  next
    case (Count_error q off lim items e)
    from Count_error(1,3) dec pq have "q = query" "off = (page - 1) * page_size" "lim = page_size"
      by auto
    then show ?thesis by (simp add: Handle_Count_error_run [OF Count_error])
  next
    case (panic q off lim items t p)
    from panic(1,3) dec pq have "q = query" "off = (page - 1) * page_size" "lim = page_size"
      by auto
    then show ?thesis by (simp add: Handle_panic_run [OF panic])
  next
    case (success q off lim items t quo)
    from success(1,3) dec pq have eqs: "q = query" "off = (page - 1) * page_size" "lim = page_size"
      by auto
    obtain w' e where resp: "Response (writer h) w (Value (AMap
           [''items'' \<mapsto> ASlice items,
            ''pagination'' \<mapsto> AMap
              [''total'' \<mapsto> AInt64 t, ''page'' \<mapsto> AInt (quo + 1),
               ''page_size'' \<mapsto> AInt lim]])) StatusOK = (w', e)"
      by (rule prod.exhaust)
    from eqs show ?thesis
      by (cases e) (simp_all add: Handle_success_run [OF success refl resp])
  qed
next
  show "(sint page - 1) * sint page_size < 2 ^ 63 \<longrightarrow>
          sint ((page - 1) * page_size) = (sint page - 1) * sint page_size"
    using sint_offset [OF bounds(1,2)] by blast
next
  show "sint page \<le> 92233720368547758 \<longrightarrow>
          sint ((page - 1) * page_size) = (sint page - 1) * sint page_size"
  proof
    assume small: "sint page \<le> 92233720368547758"
    have p: "0 \<le> sint page - 1" and s: "0 \<le> sint page_size" "sint page_size \<le> 100"
      using bounds by (simp_all add: word_sle_eq)
    have "(sint page - 1) * sint page_size \<le> 92233720368547757 * 100"
      using small p s by (intro mult_mono) simp_all
    then have "(sint page - 1) * sint page_size < 2 ^ 63" by simp
    then show "sint ((page - 1) * page_size) = (sint page - 1) * sint page_size"
      by (rule sint_offset [OF bounds(1,2)])
  qed
qed

theorem Handle_offset_limit_witness:
  "filter is_List_call (trace (Handle (Some GetPagination)
       (TestListHandler (MockQuerier (Inr [''item1'']) (Inr 1)) (MockResponseWriter None))
       example_clock httptest_NewRecorder
       (httptest_NewRequest [''page'' \<mapsto> [''3''], ''page_size'' \<mapsto> [''20'']])))
     = [querier_List (WithTimeout (Background 0) (30 * Second))
          \<lparr>Page = 3, PageSize = 20, Name = []\<rparr> 40 20]
   \<and> sint ((3 - 1) * 20 :: go_int) = (sint (3 :: go_int) - 1) * sint (20 :: go_int)"
proof -
  let ?h = "TestListHandler (MockQuerier (Inr [''item1'']) (Inr 1)) (MockResponseWriter None)
              :: (string, TestQuery, http_ResponseWriter) ListHandler"
  let ?r = "httptest_NewRequest [''page'' \<mapsto> [''3''], ''page_size'' \<mapsto> [''20'']]"
  have dec: "decoder ?h (URL_Query ?r) = Inr \<lparr>Page = 3, PageSize = 20, Name = []\<rparr>"
    by (simp add: TestListHandler_decoder TestQuery_Decode_page_3_size_20)
  have val: "validate ?h \<lparr>Page = 3, PageSize = 20, Name = []\<rparr> = None"
    by (rule TestListHandler_validate) (simp add: validate_PaginatedQuery_def word_sle_eq)
  have bounds: "1 \<le>s (3 :: go_int)" "1 \<le>s (20 :: go_int)" "(20 :: go_int) \<le>s 100"
    by (simp_all add: word_sle_eq)
  from Handle_offset_limit [where pg = GetPagination and clock = example_clock
      and w = httptest_NewRecorder, OF dec val GetPagination_eq bounds]
  show ?thesis by (simp add: httptest_NewRequest_def)
qed

text \<open>
  C3. A request whose query string fails decoding, or decodes to a query that fails
  validation, makes \<^verbatim>\<open>Handle\<close> call the response writer exactly once, with
  \<^verbatim>\<open>ErrBadRequest\<close> and status 400, and call neither \<^verbatim>\<open>List\<close> nor \<^verbatim>\<open>Count\<close>. For
  \<^verbatim>\<open>TestQuery\<close> a non-numeric \<^verbatim>\<open>page\<close> fails decoding (\<open>TestQuery_Decode_page_abc\<close>) and
  \<^verbatim>\<open>page=0\<close>, \<^verbatim>\<open>page_size=0\<close> and \<^verbatim>\<open>page_size=101\<close> fail validation
  (\<open>validate_PaginatedQuery_rejects\<close>).
\<close>

theorem Handle_bad_request:
  assumes "case decoder h (URL_Query r) of
             Inl err \<Rightarrow> True
           | Inr query \<Rightarrow> validate h query \<noteq> None"
  shows "writer_calls (trace (Handle pg h clock w r)) = [writer_Error ErrBadRequest 400]
       \<and> querier_calls (trace (Handle pg h clock w r)) = []
       \<and> rw (Handle pg h clock w r) = Error (writer h) w ErrBadRequest 400
       \<and> outcome (Handle pg h clock w r) = Returned"
proof (cases "decoder h (URL_Query r)")
  case (Inl err)
  show ?thesis
    by (simp add: Handle_decode_error_run [OF Inl] trace_defs status_defs)
next
  case (Inr query)
  with assms obtain err where "validate h query = Some err" by auto
  then show ?thesis
    by (simp add: Handle_validate_error_run [OF Inr] trace_defs status_defs)
qed

theorem Handle_bad_request_witness:
  "(case decoder (TestListHandler (MockQuerier (Inr [''item1'']) (Inr 1))
                    (MockResponseWriter None :: (http_ResponseWriter, string) ResponseWriter))
           (URL_Query (httptest_NewRequest [''page'' \<mapsto> [''0''], ''page_size'' \<mapsto> [''0'']])) of
      Inl err \<Rightarrow> True
    | Inr query \<Rightarrow>
        validate (TestListHandler (MockQuerier (Inr [''item1'']) (Inr 1))
                    (MockResponseWriter None :: (http_ResponseWriter, string) ResponseWriter))
          query \<noteq> None)
   \<and> writer_calls (trace (Handle (Some GetPagination)
         (TestListHandler (MockQuerier (Inr [''item1'']) (Inr 1)) (MockResponseWriter None))
         example_clock httptest_NewRecorder
         (httptest_NewRequest [''page'' \<mapsto> [''0''], ''page_size'' \<mapsto> [''0'']])))
       = [writer_Error ErrBadRequest 400]
   \<and> querier_calls (trace (Handle (Some GetPagination)
         (TestListHandler (MockQuerier (Inr [''item1'']) (Inr 1)) (MockResponseWriter None))
         example_clock httptest_NewRecorder
         (httptest_NewRequest [''page'' \<mapsto> [''0''], ''page_size'' \<mapsto> [''0'']])))
       = []
   \<and> writer_calls (trace (Handle (Some GetPagination)
         (TestListHandler (MockQuerier (Inr [''item1'']) (Inr 1)) (MockResponseWriter None))
         example_clock httptest_NewRecorder
         (httptest_NewRequest [''page'' \<mapsto> [''abc''], ''page_size'' \<mapsto> [''10'']])))
       = [writer_Error ErrBadRequest 400]
   \<and> querier_calls (trace (Handle (Some GetPagination)
         (TestListHandler (MockQuerier (Inr [''item1'']) (Inr 1)) (MockResponseWriter None))
         example_clock httptest_NewRecorder
         (httptest_NewRequest [''page'' \<mapsto> [''abc''], ''page_size'' \<mapsto> [''10'']])))
       = []
   \<and> writer_calls (trace (Handle (Some GetPagination)
         (TestListHandler (MockQuerier (Inr [''item1'']) (Inr 1)) (MockResponseWriter None))
         example_clock httptest_NewRecorder
         (httptest_NewRequest [''page'' \<mapsto> [''1''], ''page_size'' \<mapsto> [''101'']])))
       = [writer_Error ErrBadRequest 400]
   \<and> querier_calls (trace (Handle (Some GetPagination)
         (TestListHandler (MockQuerier (Inr [''item1'']) (Inr 1)) (MockResponseWriter None))
         example_clock httptest_NewRecorder
         (httptest_NewRequest [''page'' \<mapsto> [''1''], ''page_size'' \<mapsto> [''101'']])))
       = []"
proof -
  let ?h = "TestListHandler (MockQuerier (Inr [''item1'']) (Inr 1)) (MockResponseWriter None)
              :: (string, TestQuery, http_ResponseWriter) ListHandler"
  let ?zero = "httptest_NewRequest [''page'' \<mapsto> [''0''], ''page_size'' \<mapsto> [''0'']]"
  let ?abc = "httptest_NewRequest [''page'' \<mapsto> [''abc''], ''page_size'' \<mapsto> [''10'']]"
  let ?big = "httptest_NewRequest [''page'' \<mapsto> [''1''], ''page_size'' \<mapsto> [''101'']]"
  have zero: "case decoder ?h (URL_Query ?zero) of
               Inl err \<Rightarrow> True
             | Inr query \<Rightarrow> validate ?h query \<noteq> None"
    by (simp add: TestListHandler_decoder TestQuery_Decode_page_0 TestListHandler_validate_eq
        TestQuery_Struct_def validate_PaginatedQuery_def)
  have abc: "case decoder ?h (URL_Query ?abc) of
               Inl err \<Rightarrow> True
             | Inr query \<Rightarrow> validate ?h query \<noteq> None"
    by (simp add: TestListHandler_decoder TestQuery_Decode_page_abc)
  have big: "case decoder ?h (URL_Query ?big) of
               Inl err \<Rightarrow> True
             | Inr query \<Rightarrow> validate ?h query \<noteq> None"
    by (simp add: TestListHandler_decoder TestQuery_Decode_page_size_101
        TestListHandler_validate_eq TestQuery_Struct_def validate_PaginatedQuery_def word_sle_eq)
  from Handle_bad_request [OF zero, of "Some GetPagination" example_clock httptest_NewRecorder]
    Handle_bad_request [OF abc, of "Some GetPagination" example_clock httptest_NewRecorder]
    Handle_bad_request [OF big, of "Some GetPagination" example_clock httptest_NewRecorder]
    zero
  show ?thesis by blast
qed

text \<open>
  C4. When the call of \<^verbatim>\<open>List\<close> that \<^verbatim>\<open>Handle\<close> makes returns an error, \<^verbatim>\<open>Handle\<close> calls the
  response writer exactly once, with \<^verbatim>\<open>ErrInternal\<close> and status 500, and does not call
  \<^verbatim>\<open>Count\<close>.
\<close>

theorem Handle_List_error:
  assumes called: "querier_List ctx query offset limit \<in> set (trace (Handle pg h clock w r))"
    and failed: "List (querier h) ctx query offset limit = Inl err"
  shows "writer_calls (trace (Handle pg h clock w r)) = [writer_Error ErrInternal 500]
       \<and> filter is_Count_call (trace (Handle pg h clock w r)) = []
       \<and> rw (Handle pg h clock w r) = Error (writer h) w ErrInternal 500
       \<and> outcome (Handle pg h clock w r) = Returned"
proof (cases rule: Handle_run_cases [where h = h and r = r and pg = pg])
  case (decode_error e)
  from called show ?thesis by (simp add: Handle_decode_error_run [OF decode_error])
next
  case (validate_error q e)
  from called show ?thesis by (simp add: Handle_validate_error_run [OF validate_error])
next
  case (List_error q off lim e)
  show ?thesis
    by (simp add: Handle_List_error_run [OF List_error] trace_defs status_defs)
next
  case (Count_error q off lim items e)
  from called failed Count_error(3,4) show ?thesis
    by (simp add: Handle_Count_error_run [OF Count_error])
next
  case (panic q off lim items t p)
  from called failed panic(3,4) show ?thesis
    by (simp add: Handle_panic_run [OF panic])
next
  case (success q off lim items t quo)
  obtain w' e where resp: "Response (writer h) w (Value (AMap
           [''items'' \<mapsto> ASlice items,
            ''pagination'' \<mapsto> AMap
              [''total'' \<mapsto> AInt64 t, ''page'' \<mapsto> AInt (quo + 1),
               ''page_size'' \<mapsto> AInt lim]])) StatusOK = (w', e)"
    by (rule prod.exhaust)
  from called failed success(3,4) show ?thesis
    by (cases e) (simp_all add: Handle_success_run [OF success refl resp])
qed

theorem Handle_List_error_witness:
  "querier_List (WithTimeout (Background 0) (30 * Second))
       \<lparr>Page = 1, PageSize = 10, Name = []\<rparr> 0 10
     \<in> set (trace (Handle (Some GetPagination)
           (TestListHandler (MockQuerier (Inl AnError) (Inr 0)) (MockResponseWriter None))
           example_clock httptest_NewRecorder
           (httptest_NewRequest [''page'' \<mapsto> [''1''], ''page_size'' \<mapsto> [''10'']])))
   \<and> writer_calls (trace (Handle (Some GetPagination)
           (TestListHandler (MockQuerier (Inl AnError) (Inr 0)) (MockResponseWriter None))
           example_clock httptest_NewRecorder
           (httptest_NewRequest [''page'' \<mapsto> [''1''], ''page_size'' \<mapsto> [''10'']])))
       = [writer_Error ErrInternal 500]
   \<and> filter is_Count_call (trace (Handle (Some GetPagination)
           (TestListHandler (MockQuerier (Inl AnError) (Inr 0)) (MockResponseWriter None))
           example_clock httptest_NewRecorder
           (httptest_NewRequest [''page'' \<mapsto> [''1''], ''page_size'' \<mapsto> [''10'']])))
       = []"
proof -
  let ?h = "TestListHandler (MockQuerier (Inl AnError) (Inr 0)) (MockResponseWriter None)
              :: (string, TestQuery, http_ResponseWriter) ListHandler"
  let ?r = "httptest_NewRequest [''page'' \<mapsto> [''1''], ''page_size'' \<mapsto> [''10'']]"
  let ?ctx = "WithTimeout (Background 0) (30 * Second)"
  let ?q = "\<lparr>Page = 1, PageSize = 10, Name = []\<rparr>"
  have failed: "List (querier ?h) ?ctx ?q 0 10 = Inl AnError"
    by (simp add: fixture_defs)
  then have failed': "List (querier ?h) (WithTimeout (Context ?r) (30 * Second)) ?q 0 10 = Inl AnError"
    by (simp add: httptest_NewRequest_def)
  have called: "querier_List ?ctx ?q 0 10
      \<in> set (trace (Handle (Some GetPagination) ?h example_clock httptest_NewRecorder ?r))"
    by (simp add: Handle_List_error_run [OF TestListHandler_decoder_page_1_size_10
          TestListHandler_validate_page_1_size_10 GetPagination_page_1_size_10 failed'])
       (simp add: httptest_NewRequest_def)
  from Handle_List_error [OF called failed] called show ?thesis by simp
qed

text \<open>
  C5. When \<^verbatim>\<open>List\<close> succeeds and \<^verbatim>\<open>Count\<close> returns an error, \<^verbatim>\<open>Handle\<close> calls the response
  writer exactly once, with \<^verbatim>\<open>ErrInternal\<close> and status 500: there is no call of
  \<^verbatim>\<open>Response\<close>, and what is written does not depend on the items \<^verbatim>\<open>List\<close> returned.
\<close>

theorem Handle_Count_error:
  assumes called: "querier_List ctx query offset limit \<in> set (trace (Handle pg h clock w r))"
    and listed: "List (querier h) ctx query offset limit = Inr items"
    and failed: "Count (querier h) ctx query = Inl err"
  shows "writer_calls (trace (Handle pg h clock w r)) = [writer_Error ErrInternal 500]
       \<and> rw (Handle pg h clock w r) = Error (writer h) w ErrInternal 500
       \<and> outcome (Handle pg h clock w r) = Returned"
proof (cases rule: Handle_run_cases [where h = h and r = r and pg = pg])
  case (decode_error e)
  from called show ?thesis by (simp add: Handle_decode_error_run [OF decode_error])
next
  case (validate_error q e)
  from called show ?thesis by (simp add: Handle_validate_error_run [OF validate_error])
next
  case (List_error q off lim e)
  from called listed List_error(3,4) show ?thesis
    by (simp add: Handle_List_error_run [OF List_error])
next
  case (Count_error q off lim items' e)
  show ?thesis
    by (simp add: Handle_Count_error_run [OF Count_error] trace_defs status_defs)
next
  case (panic q off lim items' t p)
  from called failed panic(3-5) show ?thesis
    by (simp add: Handle_panic_run [OF panic])
next
  case (success q off lim items' t quo)
  obtain w' e where resp: "Response (writer h) w (Value (AMap
           [''items'' \<mapsto> ASlice items',
            ''pagination'' \<mapsto> AMap
              [''total'' \<mapsto> AInt64 t, ''page'' \<mapsto> AInt (quo + 1),
               ''page_size'' \<mapsto> AInt lim]])) StatusOK = (w', e)"
    by (rule prod.exhaust)
  from called failed success(3-5) show ?thesis
    by (cases e) (simp_all add: Handle_success_run [OF success refl resp])
qed

theorem Handle_Count_error_witness:
  "querier_List (WithTimeout (Background 0) (30 * Second))
       \<lparr>Page = 1, PageSize = 10, Name = []\<rparr> 0 10
     \<in> set (trace (Handle (Some GetPagination)
           (TestListHandler (MockQuerier (Inr [''item1'']) (Inl AnError)) (MockResponseWriter None))
           example_clock httptest_NewRecorder
           (httptest_NewRequest [''page'' \<mapsto> [''1''], ''page_size'' \<mapsto> [''10'']])))
   \<and> writer_calls (trace (Handle (Some GetPagination)
           (TestListHandler (MockQuerier (Inr [''item1'']) (Inl AnError)) (MockResponseWriter None))
           example_clock httptest_NewRecorder
           (httptest_NewRequest [''page'' \<mapsto> [''1''], ''page_size'' \<mapsto> [''10'']])))
       = [writer_Error ErrInternal 500]"
proof -
  let ?h = "TestListHandler (MockQuerier (Inr [''item1'']) (Inl AnError)) (MockResponseWriter None)
              :: (string, TestQuery, http_ResponseWriter) ListHandler"
  let ?r = "httptest_NewRequest [''page'' \<mapsto> [''1''], ''page_size'' \<mapsto> [''10'']]"
  let ?ctx = "WithTimeout (Background 0) (30 * Second)"
  let ?q = "\<lparr>Page = 1, PageSize = 10, Name = []\<rparr>"
  have listed: "List (querier ?h) ?ctx ?q 0 10 = Inr [''item1'']"
    and failed: "Count (querier ?h) ?ctx ?q = Inl AnError"
    by (simp_all add: fixture_defs)
  then have listed': "List (querier ?h) (WithTimeout (Context ?r) (30 * Second)) ?q 0 10
        = Inr [''item1'']"
    and failed': "Count (querier ?h) (WithTimeout (Context ?r) (30 * Second)) ?q = Inl AnError"
    by (simp_all add: httptest_NewRequest_def)
  have called: "querier_List ?ctx ?q 0 10
      \<in> set (trace (Handle (Some GetPagination) ?h example_clock httptest_NewRecorder ?r))"
    by (simp add: Handle_Count_error_run [OF TestListHandler_decoder_page_1_size_10
          TestListHandler_validate_page_1_size_10 GetPagination_page_1_size_10 listed' failed'])
       (simp add: httptest_NewRequest_def)
  from Handle_Count_error [OF called listed failed] called show ?thesis by simp
qed

text \<open>
  C6. For the query string \<^verbatim>\<open>page=1&page_size=10\<close>, a querier whose \<^verbatim>\<open>List\<close> returns
  \<^verbatim>\<open>(["item1"], nil)\<close> and whose \<^verbatim>\<open>Count\<close> returns \<^verbatim>\<open>(1, nil)\<close>, the one call of the response
  writer is \<^verbatim>\<open>Response\<close> with status 200 and the map with \<^verbatim>\<open>items\<close> \<^verbatim>\<open>["item1"]\<close> and
  \<^verbatim>\<open>pagination\<close> \<^verbatim>\<open>{total: 1, page: 1, page_size: 10}\<close>.
\<close>

theorem Handle_valid_request:
  "writer_calls (trace (Handle (Some GetPagination)
       (TestListHandler (MockQuerier (Inr [''item1'']) (Inr 1)) (MockResponseWriter None))
       clock w
       (httptest_NewRequest [''page'' \<mapsto> [''1''], ''page_size'' \<mapsto> [''10'']])))
     = [writer_Response
          (Value (AMap
             [''items'' \<mapsto> ASlice [''item1''],
              ''pagination'' \<mapsto> AMap
                [''total'' \<mapsto> AInt64 1, ''page'' \<mapsto> AInt 1, ''page_size'' \<mapsto> AInt 10]]))
          200]"
proof -
  let ?h = "TestListHandler (MockQuerier (Inr [''item1'']) (Inr 1)) (MockResponseWriter None)
              :: (string, TestQuery, 'a) ListHandler"
  let ?r = "httptest_NewRequest [''page'' \<mapsto> [''1''], ''page_size'' \<mapsto> [''10'']]"
  let ?q = "\<lparr>Page = 1, PageSize = 10, Name = []\<rparr> :: TestQuery"
  have quo: "go_div 0 10 = Inr 0"
    by (simp add: go_div_def)
  have resp: "Response (writer ?h) w
                (Value (AMap
                   [''items'' \<mapsto> ASlice [''item1''],
                    ''pagination'' \<mapsto> AMap
                      [''total'' \<mapsto> AInt64 1, ''page'' \<mapsto> AInt (0 + 1),
                       ''page_size'' \<mapsto> AInt 10]]))
                StatusOK = (w, None)"
    by (simp add: fixture_defs)
  show ?thesis
    by (simp add: Handle_success_run [OF TestListHandler_decoder_page_1_size_10
          TestListHandler_validate_page_1_size_10 GetPagination_page_1_size_10
          MockQuerier_simps(1) MockQuerier_simps(2) quo refl resp] trace_defs status_defs)
qed

text \<open>
  C7. Take two runs of \<^verbatim>\<open>Handle\<close> with the default response writer, each of which meets
  an error of the querier (from \<^verbatim>\<open>List\<close>, or from \<^verbatim>\<open>Count\<close> after a successful \<^verbatim>\<open>List\<close>),
  whatever the two errors are. Both leave the same \<^verbatim>\<open>http.ResponseWriter\<close>: status 500
  and the encoding of the envelope with status 500, message \<^verbatim>\<open>internal server error\<close>
  and no details (or the plain-text fallback with the same message, should the encoder
  fail). Nothing of it depends on the querier's error.
\<close>

theorem accessor_errors_indistinguishable:
  assumes writer1: "writer h1 = DefaultResponseWriter json_Encode"
    and writer2: "writer h2 = DefaultResponseWriter json_Encode"
    and called1: "querier_List ctx1 query1 offset1 limit1
                    \<in> set (trace (Handle pg1 h1 clock1 w r1))"
    and failed1: "case List (querier h1) ctx1 query1 offset1 limit1 of
                    Inl err \<Rightarrow> True
                  | Inr items \<Rightarrow>
                      (case Count (querier h1) ctx1 query1 of
                         Inl err \<Rightarrow> True
                       | Inr total' \<Rightarrow> False)"
    and called2: "querier_List ctx2 query2 offset2 limit2
                    \<in> set (trace (Handle pg2 h2 clock2 w r2))"
    and failed2: "case List (querier h2) ctx2 query2 offset2 limit2 of
                    Inl err \<Rightarrow> True
                  | Inr items \<Rightarrow>
                      (case Count (querier h2) ctx2 query2 of
                         Inl err \<Rightarrow> True
                       | Inr total' \<Rightarrow> False)"
  shows "rw (Handle pg1 h1 clock1 w r1) = rw (Handle pg2 h2 clock2 w r2)
       \<and> writer_calls (trace (Handle pg1 h1 clock1 w r1)) = [writer_Error ErrInternal 500]
       \<and> writer_calls (trace (Handle pg2 h2 clock2 w r2)) = [writer_Error ErrInternal 500]
       \<and> rw (Handle pg1 h1 clock1 w r1) =
           (case json_Encode
                   (Struct \<lparr>Status = 500, Message = ''internal server error'',
                            Details = ANil\<rparr>) of
              Inr bytes \<Rightarrow>
                Write (WriteHeader (Header_Set w ''Content-Type'' ''application/json'') 500)
                  bytes
            | Inl e \<Rightarrow>
                http_Error
                  (WriteHeader (Header_Set w ''Content-Type'' ''application/json'') 500)
                  ''internal server error'' 500)"
proof -
  have "rw (Handle pg1 h1 clock1 w r1) = DefaultResponseWriter_Error json_Encode w ErrInternal 500"
    using Handle_querier_error(1) [OF called1 failed1]
    by (simp add: writer1 DefaultResponseWriter_def)
  moreover
  have "rw (Handle pg2 h2 clock2 w r2) = DefaultResponseWriter_Error json_Encode w ErrInternal 500"
    using Handle_querier_error(1) [OF called2 failed2]
    by (simp add: writer2 DefaultResponseWriter_def)
  ultimately show ?thesis
    using Handle_querier_error(2) [OF called1 failed1] Handle_querier_error(2) [OF called2 failed2]
    by (simp add: DefaultResponseWriter_Error_ErrInternal)
qed

theorem accessor_errors_indistinguishable_witness:
  "rw (Handle (Some GetPagination)
         (TestListHandler (MockQuerier (Inl AnError) (Inr 0))
            (DefaultResponseWriter fake_Encode))
         example_clock httptest_NewRecorder
         (httptest_NewRequest [''page'' \<mapsto> [''1''], ''page_size'' \<mapsto> [''10'']]))
     = rw (Handle (Some GetPagination)
         (TestListHandler
            (MockQuerier (Inr [''item1'']) (Inl (errors_New ''count: connection refused'')))
            (DefaultResponseWriter fake_Encode))
         example_clock httptest_NewRecorder
         (httptest_NewRequest [''page'' \<mapsto> [''1''], ''page_size'' \<mapsto> [''10'']]))
   \<and> Body (rw (Handle (Some GetPagination)
         (TestListHandler (MockQuerier (Inl AnError) (Inr 0))
            (DefaultResponseWriter fake_Encode))
         example_clock httptest_NewRecorder
         (httptest_NewRequest [''page'' \<mapsto> [''1''], ''page_size'' \<mapsto> [''10'']])))
     = ''internal server error'' @ [CHR 0x0A]"
proof -
  let ?h1 = "TestListHandler (MockQuerier (Inl AnError) (Inr 0))
               (DefaultResponseWriter fake_Encode)
               :: (string, TestQuery, http_ResponseWriter) ListHandler"
  let ?h2 = "TestListHandler
               (MockQuerier (Inr [''item1'']) (Inl (errors_New ''count: connection refused'')))
               (DefaultResponseWriter fake_Encode)
               :: (string, TestQuery, http_ResponseWriter) ListHandler"
  let ?r = "httptest_NewRequest [''page'' \<mapsto> [''1''], ''page_size'' \<mapsto> [''10'']]"
  let ?ctx = "WithTimeout (Context ?r) (30 * Second)"
  let ?q = "\<lparr>Page = 1, PageSize = 10, Name = []\<rparr> :: TestQuery"
  have writers: "writer ?h1 = DefaultResponseWriter fake_Encode"
    "writer ?h2 = DefaultResponseWriter fake_Encode"
    by (simp_all add: TestListHandler_def NewListHandler_def)
  have called1: "querier_List ?ctx ?q 0 10
      \<in> set (trace (Handle (Some GetPagination) ?h1 example_clock httptest_NewRecorder ?r))"
    by (simp add: Handle_List_error_run [OF TestListHandler_decoder_page_1_size_10
          TestListHandler_validate_page_1_size_10 GetPagination_page_1_size_10
          MockQuerier_simps(1)])
  have called2: "querier_List ?ctx ?q 0 10
      \<in> set (trace (Handle (Some GetPagination) ?h2 example_clock httptest_NewRecorder ?r))"
    by (simp add: Handle_Count_error_run [OF TestListHandler_decoder_page_1_size_10
          TestListHandler_validate_page_1_size_10 GetPagination_page_1_size_10
          MockQuerier_simps(1) MockQuerier_simps(2)])
  have failed1: "case List (querier ?h1) ?ctx ?q 0 10 of
                    Inl err \<Rightarrow> True
                  | Inr items \<Rightarrow>
                      (case Count (querier ?h1) ?ctx ?q of
                         Inl err \<Rightarrow> True
                       | Inr total' \<Rightarrow> False)"
    by (simp add: MockQuerier_simps)
  have failed2: "case List (querier ?h2) ?ctx ?q 0 10 of
                    Inl err \<Rightarrow> True
                  | Inr items \<Rightarrow>
                      (case Count (querier ?h2) ?ctx ?q of
                         Inl err \<Rightarrow> True
                       | Inr total' \<Rightarrow> False)"
    by (simp add: MockQuerier_simps)
  note both = accessor_errors_indistinguishable [OF writers called1 failed1 called2 failed2]
  from both have same: "rw (Handle (Some GetPagination) ?h1 example_clock httptest_NewRecorder ?r)
      = rw (Handle (Some GetPagination) ?h2 example_clock httptest_NewRecorder ?r)"
    by blast
  from both have "rw (Handle (Some GetPagination) ?h1 example_clock httptest_NewRecorder ?r)
      = (case fake_Encode
                (Struct \<lparr>Status = 500, Message = ''internal server error'',
                         Details = (ANil :: string go_any)\<rparr>) of
           Inr bytes \<Rightarrow>
             Write (WriteHeader
                      (Header_Set httptest_NewRecorder ''Content-Type'' ''application/json'')
                      500) bytes
         | Inl e \<Rightarrow>
             http_Error
               (WriteHeader
                  (Header_Set httptest_NewRecorder ''Content-Type'' ''application/json'') 500)
               ''internal server error'' 500)"
    by blast
  then have "Body (rw (Handle (Some GetPagination) ?h1 example_clock httptest_NewRecorder ?r))
      = ''internal server error'' @ [CHR 0x0A]"
    by (simp add: fake_Encode_def Write_def WriteHeader_def Header_Set_def
        httptest_NewRecorder_def)
  with same show ?thesis by blast
qed

text \<open>
  C8. Two calls of \<^verbatim>\<open>Handle\<close> on requests with the same query string, with the same
  decoder, validator and response writer, the same \<^verbatim>\<open>http.ResponseWriter\<close> on entry, and
  queriers whose \<^verbatim>\<open>List\<close> and \<^verbatim>\<open>Count\<close> return the same results, make the same calls of the
  response writer and leave the same \<^verbatim>\<open>http.ResponseWriter\<close>; the method, path, remote
  address and context of the requests and the clock may differ.
\<close>

theorem Handle_deterministic:
  assumes same_query: "URL_Query r1 = URL_Query r2"
    and same_decoder: "decoder h1 = decoder h2"
    and same_validate: "validate h1 = validate h2"
    and same_writer: "writer h1 = writer h2"
    and same_List: "\<forall>query offset limit.
        List (querier h1) (WithTimeout (Context r1) (30 * Second)) query offset limit
          = List (querier h2) (WithTimeout (Context r2) (30 * Second)) query offset limit"
    and same_Count: "\<forall>query.
        Count (querier h1) (WithTimeout (Context r1) (30 * Second)) query
          = Count (querier h2) (WithTimeout (Context r2) (30 * Second)) query"
  shows "writer_calls (trace (Handle pg h1 clock1 w r1))
           = writer_calls (trace (Handle pg h2 clock2 w r2))
       \<and> rw (Handle pg h1 clock1 w r1) = rw (Handle pg h2 clock2 w r2)
       \<and> outcome (Handle pg h1 clock1 w r1) = outcome (Handle pg h2 clock2 w r2)"
proof (cases rule: Handle_run_cases [where h = h1 and r = r1 and pg = pg])
  case (decode_error e)
  then have "decoder h2 (URL_Query r2) = Inl e"
    by (simp add: same_query same_decoder)
  from Handle_decode_error_run [OF decode_error] Handle_decode_error_run [OF this]
  show ?thesis by (simp add: trace_defs same_writer)
next
  case (validate_error q e)
  then have "decoder h2 (URL_Query r2) = Inr q" and "validate h2 q = Some e"
    by (simp_all add: same_query same_decoder same_validate)
  from Handle_validate_error_run [OF validate_error] Handle_validate_error_run [OF this]
  show ?thesis by (simp add: trace_defs same_writer)
next
  case (List_error q off lim e)
  then have "decoder h2 (URL_Query r2) = Inr q" and "validate h2 q = None"
    and "List (querier h2) (WithTimeout (Context r2) (30 * Second)) q off lim = Inl e"
    using same_List by (simp_all add: same_query same_decoder same_validate)
  from Handle_List_error_run [OF List_error]
    Handle_List_error_run [OF this(1,2) List_error(3) this(3)]
  show ?thesis by (simp add: trace_defs same_writer)
next
  case (Count_error q off lim items e)
  then have "decoder h2 (URL_Query r2) = Inr q" and "validate h2 q = None"
    and "List (querier h2) (WithTimeout (Context r2) (30 * Second)) q off lim = Inr items"
    and "Count (querier h2) (WithTimeout (Context r2) (30 * Second)) q = Inl e"
    using same_List same_Count by (simp_all add: same_query same_decoder same_validate)
  from Handle_Count_error_run [OF Count_error]
    Handle_Count_error_run [OF this(1,2) Count_error(3) this(3,4)]
  show ?thesis by (simp add: trace_defs same_writer)
next
  case (panic q off lim items t p)
  then have "decoder h2 (URL_Query r2) = Inr q" and "validate h2 q = None"
    and "List (querier h2) (WithTimeout (Context r2) (30 * Second)) q off lim = Inr items"
    and "Count (querier h2) (WithTimeout (Context r2) (30 * Second)) q = Inr t"
    using same_List same_Count by (simp_all add: same_query same_decoder same_validate)
  from Handle_panic_run [OF panic]
    Handle_panic_run [OF this(1,2) panic(3) this(3,4) panic(6)]
  show ?thesis by (simp add: trace_defs)
next
  case (success q off lim items t quo)
  then have run2: "decoder h2 (URL_Query r2) = Inr q" "validate h2 q = None"
    "List (querier h2) (WithTimeout (Context r2) (30 * Second)) q off lim = Inr items"
    "Count (querier h2) (WithTimeout (Context r2) (30 * Second)) q = Inr t"
    using same_List same_Count by (simp_all add: same_query same_decoder same_validate)
  obtain w' e where resp: "Response (writer h1) w (Value (AMap
           [''items'' \<mapsto> ASlice items,
            ''pagination'' \<mapsto> AMap
              [''total'' \<mapsto> AInt64 t, ''page'' \<mapsto> AInt (quo + 1),
               ''page_size'' \<mapsto> AInt lim]])) StatusOK = (w', e)"
    by (rule prod.exhaust)
  then have resp2: "Response (writer h2) w (Value (AMap
           [''items'' \<mapsto> ASlice items,
            ''pagination'' \<mapsto> AMap
              [''total'' \<mapsto> AInt64 t, ''page'' \<mapsto> AInt (quo + 1),
               ''page_size'' \<mapsto> AInt lim]])) StatusOK = (w', e)"
    by (simp add: same_writer)
  from Handle_success_run [OF success refl resp]
    Handle_success_run [OF run2(1,2) success(3) run2(3,4) success(6) refl resp2]
  show ?thesis by (cases e) (simp_all add: trace_defs)
qed

theorem Handle_deterministic_witness:
  "rw (Handle (Some GetPagination)
         (TestListHandler (MockQuerier (Inr [''item1'']) (Inr 1))
            (DefaultResponseWriter fake_Encode))
         \<lparr>time_Now = 0, time_Since = 1\<rparr> httptest_NewRecorder
         \<lparr>Method = ''GET'', URL_Path = ''/'', RemoteAddr = ''192.0.2.1:1234'',
          URL_Query = [''page'' \<mapsto> [''1''], ''page_size'' \<mapsto> [''10'']],
          Context = Background 0\<rparr>)
     = rw (Handle (Some GetPagination)
         (TestListHandler (MockQuerier (Inr [''item1'']) (Inr 1))
            (DefaultResponseWriter fake_Encode))
         \<lparr>time_Now = 5, time_Since = 9\<rparr> httptest_NewRecorder
         \<lparr>Method = ''HEAD'', URL_Path = ''/items'', RemoteAddr = ''198.51.100.7:4242'',
          URL_Query = [''page'' \<mapsto> [''1''], ''page_size'' \<mapsto> [''10'']],
          Context = Background 1\<rparr>)"
proof -
  let ?h = "TestListHandler (MockQuerier (Inr [''item1'']) (Inr 1))
              (DefaultResponseWriter fake_Encode)
              :: (string, TestQuery, http_ResponseWriter) ListHandler"
  let ?r1 = "\<lparr>Method = ''GET'', URL_Path = ''/'', RemoteAddr = ''192.0.2.1:1234'',
          URL_Query = [''page'' \<mapsto> [''1''], ''page_size'' \<mapsto> [''10'']],
          Context = Background 0\<rparr>"
  let ?r2 = "\<lparr>Method = ''HEAD'', URL_Path = ''/items'', RemoteAddr = ''198.51.100.7:4242'',
          URL_Query = [''page'' \<mapsto> [''1''], ''page_size'' \<mapsto> [''10'']],
          Context = Background 1\<rparr>"
  have same_query: "URL_Query ?r1 = URL_Query ?r2" by simp
  have same_List: "\<forall>query offset limit.
        List (querier ?h) (WithTimeout (Context ?r1) (30 * Second)) query offset limit
          = List (querier ?h) (WithTimeout (Context ?r2) (30 * Second)) query offset limit"
    by (simp add: MockQuerier_simps)
  have same_Count: "\<forall>query.
        Count (querier ?h) (WithTimeout (Context ?r1) (30 * Second)) query
          = Count (querier ?h) (WithTimeout (Context ?r2) (30 * Second)) query"
    by (simp add: MockQuerier_simps)
  from Handle_deterministic [OF same_query refl refl refl same_List same_Count]
  show ?thesis by blast
qed

text \<open>
  C9. \<^verbatim>\<open>DefaultResponseWriter.Error\<close> hands the encoder the envelope with the given status,
  the message \<^verbatim>\<open>err.Error()\<close>, and as details the value of \<^verbatim>\<open>err.Details()\<close> when the error
  has that method and nothing (\<^verbatim>\<open>nil\<close>) otherwise. On a fresh \<^verbatim>\<open>http.ResponseWriter\<close> the
  status is committed with the JSON content type and the body is the encoder's output
  for that envelope.
\<close>

theorem DefaultResponseWriter_Error_envelope:
  assumes fresh: "Committed writer' = None"
    and encoded: "json_Encode
        (Struct \<lparr>Status = status, Message = err_Error err,
                 Details = (case err_Details err of Some detailed \<Rightarrow> detailed | None \<Rightarrow> ANil)\<rparr>)
        = Inr bytes"
  shows "DefaultResponseWriter_Error json_Encode writer' err status =
     \<lparr>Header = (Header writer')(''Content-Type'' \<mapsto> ''application/json''),
      Committed = Some (status, (Header writer')(''Content-Type'' \<mapsto> ''application/json'')),
      Body = Body writer' @ bytes\<rparr>"
proof (cases "err_Details err")
  case None
  with encoded have "json_Encode
      (Struct \<lparr>Status = status, Message = err_Error err, Details = ANil\<rparr>) = Inr bytes"
    by simp
  with None fresh show ?thesis
    by (simp add: DefaultResponseWriter_Error_def DefaultResponseWriter_Response_def
        Header_Set_def WriteHeader_def Write_def)
next
  case (Some detailed)
  with encoded have "json_Encode
      (Struct \<lparr>Status = status, Message = err_Error err, Details = detailed\<rparr>) = Inr bytes"
    by simp
  with Some fresh show ?thesis
    by (simp add: DefaultResponseWriter_Error_def DefaultResponseWriter_Response_def
        Header_Set_def WriteHeader_def Write_def)
qed

theorem DefaultResponseWriter_Error_envelope_witness:
  "Committed httptest_NewRecorder = None
   \<and> DefaultResponseWriter_Error fake_Encode httptest_NewRecorder
         \<lparr>err_Error = ''validation failed'',
          err_Details = Some (AString ''page'' :: string go_any)\<rparr> 400
       = \<lparr>Header = [''Content-Type'' \<mapsto> ''application/json''],
          Committed = Some (400, [''Content-Type'' \<mapsto> ''application/json'']),
          Body = ''validation failed: page'' @ [CHR 0x0A]\<rparr>"
proof -
  have fresh: "Committed httptest_NewRecorder = None"
    by (simp add: httptest_NewRecorder_def)
  have encoded: "fake_Encode
      (Struct \<lparr>Status = 400,
               Message = err_Error \<lparr>err_Error = ''validation failed'',
                                    err_Details = Some (AString ''page'' :: string go_any)\<rparr>,
               Details = (case err_Details \<lparr>err_Error = ''validation failed'',
                                            err_Details = Some (AString ''page'')\<rparr> of
                            Some detailed \<Rightarrow> detailed
                          | None \<Rightarrow> ANil)\<rparr>)
      = Inr (''validation failed: page'' @ [CHR 0x0A])"
    by (simp add: fake_Encode_def)
  from DefaultResponseWriter_Error_envelope [where json_Encode = fake_Encode, OF fresh encoded]
    fresh
  show ?thesis by (simp add: httptest_NewRecorder_def)
qed

text \<open>
  C10, amended. When the query yields the pagination \<open>(page, page_size)\<close> with
  \<open>page \<ge> 1\<close>, \<open>page_size \<ge> 1\<close> and \<open>(page - 1) * page_size\<close> within the range of \<^verbatim>\<open>int\<close>, and
  \<^verbatim>\<open>List\<close> and \<^verbatim>\<open>Count\<close> succeed, the response echoes \<open>page\<close> and \<open>page_size\<close>. Without
  the bound the claim fails: for \<^verbatim>\<open>page=4611686018427387905&page_size=4\<close> the offset
  wraps around to 0 and the response echoes page 1.
\<close>

theorem Handle_page_echo:
  assumes dec: "decoder h (URL_Query r) = Inr query" and val: "validate h query = None"
    and pq: "pg query = \<lparr>Page = page, PageSize = page_size\<rparr>"
    and bounds: "1 \<le>s page" "1 \<le>s page_size"
    and fits: "(sint page - 1) * sint page_size < 2 ^ 63"
    and listed: "List (querier h) (WithTimeout (Context r) (30 * Second)) query
                   ((page - 1) * page_size) page_size = Inr items"
    and counted: "Count (querier h) (WithTimeout (Context r) (30 * Second)) query = Inr total'"
  shows "writer_calls (trace (Handle (Some pg) h clock w r))
           = [writer_Response
                (Value (AMap
                   [''items'' \<mapsto> ASlice items,
                    ''pagination'' \<mapsto> AMap
                      [''total'' \<mapsto> AInt64 total', ''page'' \<mapsto> AInt page,
                       ''page_size'' \<mapsto> AInt page_size]]))
                200]"
proof -
  have ol: "(case Some pg of
               Some g \<Rightarrow> ((Page (g query) - 1) * PageSize (g query), PageSize (g query))
             | None \<Rightarrow> (0, 0)) = ((page - 1) * page_size, page_size)"
    by (simp add: pq)
  have quo: "go_div ((page - 1) * page_size) page_size = Inr (page - 1)"
    by (rule go_div_offset [OF bounds fits])
  obtain w' e where resp: "Response (writer h) w (Value (AMap
           [''items'' \<mapsto> ASlice items,
            ''pagination'' \<mapsto> AMap
              [''total'' \<mapsto> AInt64 total', ''page'' \<mapsto> AInt (page - 1 + 1),
               ''page_size'' \<mapsto> AInt page_size]])) StatusOK = (w', e)"
    by (rule prod.exhaust)
  show ?thesis
    by (cases e)
      (simp_all add: Handle_success_run [OF dec val ol listed counted quo refl resp]
        trace_defs status_defs)
qed

theorem Handle_page_echo_witness:
  "writer_calls (trace (Handle (Some GetPagination)
       (TestListHandler (MockQuerier (Inr [''item1'']) (Inr 1)) (MockResponseWriter None))
       example_clock httptest_NewRecorder
       (httptest_NewRequest [''page'' \<mapsto> [''3''], ''page_size'' \<mapsto> [''20'']])))
     = [writer_Response
          (Value (AMap
             [''items'' \<mapsto> ASlice [''item1''],
              ''pagination'' \<mapsto> AMap
                [''total'' \<mapsto> AInt64 1, ''page'' \<mapsto> AInt 3, ''page_size'' \<mapsto> AInt 20]]))
          200]"
proof -
  let ?h = "TestListHandler (MockQuerier (Inr [''item1'']) (Inr 1)) (MockResponseWriter None)
              :: (string, TestQuery, http_ResponseWriter) ListHandler"
  let ?r = "httptest_NewRequest [''page'' \<mapsto> [''3''], ''page_size'' \<mapsto> [''20'']]"
  have dec: "decoder ?h (URL_Query ?r) = Inr \<lparr>Page = 3, PageSize = 20, Name = []\<rparr>"
    by (simp add: TestListHandler_decoder TestQuery_Decode_page_3_size_20)
  have val: "validate ?h \<lparr>Page = 3, PageSize = 20, Name = []\<rparr> = None"
    by (rule TestListHandler_validate) (simp add: validate_PaginatedQuery_def word_sle_eq)
  have bounds: "1 \<le>s (3 :: go_int)" "1 \<le>s (20 :: go_int)"
    by (simp_all add: word_sle_eq)
  have fits: "(sint (3 :: go_int) - 1) * sint (20 :: go_int) < 2 ^ 63"
    by simp
  show ?thesis
    by (rule Handle_page_echo [where pg = GetPagination, OF dec val GetPagination_eq bounds fits
          MockQuerier_simps(1) MockQuerier_simps(2)])
qed

theorem Handle_page_echo_counterexample:
  "TestQuery_Decode [''page'' \<mapsto> [''4611686018427387905''], ''page_size'' \<mapsto> [''4'']]
     = (Inr \<lparr>Page = 4611686018427387905, PageSize = 4, Name = []\<rparr> :: string go_error + TestQuery)
   \<and> validate_PaginatedQuery \<lparr>Page = 4611686018427387905, PageSize = 4, Name = []\<rparr>
   \<and> writer_calls (trace (Handle (Some GetPagination)
         (TestListHandler (MockQuerier (Inr [''item1'']) (Inr 1)) (MockResponseWriter None))
         example_clock httptest_NewRecorder
         (httptest_NewRequest [''page'' \<mapsto> [''4611686018427387905''], ''page_size'' \<mapsto> [''4'']])))
       = [writer_Response
            (Value (AMap
               [''items'' \<mapsto> ASlice [''item1''],
                ''pagination'' \<mapsto> AMap
                  [''total'' \<mapsto> AInt64 1, ''page'' \<mapsto> AInt 1, ''page_size'' \<mapsto> AInt 4]]))
            200]
   \<and> (1 :: go_int) \<noteq> 4611686018427387905"
proof -
  let ?h = "TestListHandler (MockQuerier (Inr [''item1'']) (Inr 1)) (MockResponseWriter None)
              :: (string, TestQuery, http_ResponseWriter) ListHandler"
  let ?r = "httptest_NewRequest [''page'' \<mapsto> [''4611686018427387905''], ''page_size'' \<mapsto> [''4'']]"
  let ?q = "\<lparr>Page = 4611686018427387905, PageSize = 4, Name = []\<rparr> :: TestQuery"
  have valid: "validate_PaginatedQuery ?q"
    by (simp add: validate_PaginatedQuery_def word_sle_eq)
  have dec: "decoder ?h (URL_Query ?r) = Inr ?q"
    by (simp add: TestListHandler_decoder TestQuery_Decode_page_overflow)
  have val: "validate ?h ?q = None"
    by (rule TestListHandler_validate [OF valid])
  have ol: "(case Some GetPagination of
               Some g \<Rightarrow> ((Page (g ?q) - 1) * PageSize (g ?q), PageSize (g ?q))
             | None \<Rightarrow> (0, 0)) = (0, 4)"
    by (simp add: GetPagination_def)
  have quo: "go_div 0 4 = Inr 0"
    by (simp add: go_div_def)
  have resp: "Response (writer ?h) httptest_NewRecorder
                (Value (AMap
                   [''items'' \<mapsto> ASlice [''item1''],
                    ''pagination'' \<mapsto> AMap
                      [''total'' \<mapsto> AInt64 1, ''page'' \<mapsto> AInt (0 + 1),
                       ''page_size'' \<mapsto> AInt 4]]))
                StatusOK = (httptest_NewRecorder, None)"
    by (simp add: fixture_defs)
  have "writer_calls (trace (Handle (Some GetPagination) ?h example_clock httptest_NewRecorder ?r))
       = [writer_Response
            (Value (AMap
               [''items'' \<mapsto> ASlice [''item1''],
                ''pagination'' \<mapsto> AMap
                  [''total'' \<mapsto> AInt64 1, ''page'' \<mapsto> AInt 1, ''page_size'' \<mapsto> AInt 4]]))
            200]"
    by (simp add: Handle_success_run [OF dec val ol MockQuerier_simps(1) MockQuerier_simps(2)
          quo refl resp] trace_defs status_defs)
  with valid show ?thesis
    by (simp add: TestQuery_Decode_page_overflow)
qed

end
